theory Spec2Isabelle
  imports Main "HOL-Library.Sublist" "HOL-Library.AList" "HOL-Library.Multiset"
begin

section \<open>JavaScript values\<close>

text \<open>
  An exception is represented by the message of the thrown \<open>Error\<close>.
\<close>

type_synonym error = string

text \<open>
  \<open>json\<close> is a scalar that arrives in a parsed JSON body (numbers restricted to
  integers). \<open>jsval\<close> adds \<open>undefined\<close> (a missing property) and the members that
  every object literal inherits from \<open>Object.prototype\<close>; \<open>Inherited n\<close> is the
  inherited member called \<open>n\<close> (a function, or for \<open>__proto__\<close> the prototype
  object itself).
\<close>

datatype json = JNull | JBool bool | JNum int | JStr string

datatype jsval = Undefined | Json json | Inherited string

fun truthy :: "jsval \<Rightarrow> bool" where
  "truthy Undefined = False"
| "truthy (Json JNull) = False"
| "truthy (Json (JBool b)) = b"
| "truthy (Json (JNum n)) = (n \<noteq> 0)"
| "truthy (Json (JStr s)) = (s \<noteq> [])"
| "truthy (Inherited n) = True"

text \<open>\<open>a || b\<close>\<close>

definition js_or :: "jsval \<Rightarrow> jsval \<Rightarrow> jsval" where
  "js_or a b = (if truthy a then a else b)"

text \<open>
  The names that a property read on an object literal finds on \<open>Object.prototype\<close>
  when the object has no own property of that name.
\<close>

definition object_prototype_members :: "string list" where
  "object_prototype_members =
     [''constructor'', ''__defineGetter__'', ''__defineSetter__'', ''hasOwnProperty'',
      ''__lookupGetter__'', ''__lookupSetter__'', ''isPrototypeOf'',
      ''propertyIsEnumerable'', ''toString'', ''valueOf'', ''__proto__'',
      ''toLocaleString'']"

text \<open>
  \<open>obj[key]\<close> for an object literal with the own properties \<open>own\<close> and a string key:
  the own property, else the inherited member, else \<open>undefined\<close>.
\<close>

definition get_property :: "(string \<times> jsval) list \<Rightarrow> string \<Rightarrow> jsval" where
  "get_property own key =
     (case map_of own key of
        Some v \<Rightarrow> v
      | None \<Rightarrow> if key \<in> set object_prototype_members then Inherited key else Undefined)"

text \<open>
  \<open>obj[key] = v\<close> on an object literal whose own properties are \<open>own\<close>: the key
  \<open>__proto__\<close> is the accessor inherited from \<open>Object.prototype\<close>, so assigning an
  object to it replaces the prototype and creates no own property; every other key is
  created or overwritten in place.
\<close>

definition set_property :: "(string \<times> 'v) list \<Rightarrow> string \<Rightarrow> 'v \<Rightarrow> (string \<times> 'v) list" where
  "set_property own key v = (if key = ''__proto__'' then own else AList.update key v own)"

text \<open>\<open>Array.prototype.includes\<close> and \<open>String.prototype.includes\<close>\<close>

primrec array_includes :: "'a list \<Rightarrow> 'a \<Rightarrow> bool" where
  "array_includes [] x = False"
| "array_includes (y # ys) x = (y = x \<or> array_includes ys x)"

definition str_includes :: "string \<Rightarrow> string \<Rightarrow> bool" where
  "str_includes s sub = sublist sub s"

text \<open>\<open>String(n)\<close> for an integer\<close>

fun digits :: "nat \<Rightarrow> string" where
  "digits n = (if n < 10 then [char_of (48 + n)] else digits (n div 10) @ [char_of (48 + n mod 10)])"

definition string_of_int :: "int \<Rightarrow> string" where
  "string_of_int i = (if i < 0 then CHR ''-'' # digits (nat (- i)) else digits (nat i))"

text \<open>The string a template literal inserts for a value read from JSON data.\<close>

fun to_string :: "json option \<Rightarrow> string" where
  "to_string None = ''undefined''"
| "to_string (Some JNull) = ''null''"
| "to_string (Some (JBool b)) = (if b then ''true'' else ''false'')"
| "to_string (Some (JNum n)) = string_of_int n"
| "to_string (Some (JStr s)) = s"


section \<open>The device registry's rows\<close>

text \<open>
  A row of table \<open>devices\<close> as \<open>DeviceModel\<close> returns it: column \<open>capabilities\<close>
  after \<open>JSON.parse\<close>, \<open>None\<close> when the value is not parsed or parses to \<open>null\<close>.
\<close>

record device =
  device_uuid :: string
  thingsboard_device_id :: string
  device_name :: string
  device_type :: string
  owner_user_id :: int
  device_label :: "string option"
  capabilities :: "string list option"
  provisioned_at :: int
  is_online :: int
  is_active :: int


section \<open>Capability-to-protocol translation\<close>

record device_names =
  defaultNames :: "string list"
  name :: string
  nicknames :: "string list"

record device_info =
  manufacturer :: string
  model :: string
  hwVersion :: string
  swVersion :: string

record google_device =
  gd_id :: string
  gd_type :: string
  traits :: "string list"
  gd_name :: device_names
  willReportState :: bool
  deviceInfo :: device_info

text \<open>\<open>device.capabilities || []\<close>\<close>

definition capabilities_or_empty :: "device \<Rightarrow> string list" where
  "capabilities_or_empty d = (case capabilities d of None \<Rightarrow> [] | Some cs \<Rightarrow> cs)"

text \<open>\<open>device.device_label || device.device_name\<close>\<close>

definition label_or_name :: "device \<Rightarrow> string" where
  "label_or_name d =
     (case device_label d of
        None \<Rightarrow> device_name d
      | Some l \<Rightarrow> if l = [] then device_name d else l)"

text \<open>
  The type and trait list that \<open>convertToGoogleDevice\<close> computes: the two \<open>let\<close>
  variables start at the OUTLET default and the \<open>if\<close>/\<open>else if\<close> chain overwrites
  them.
\<close>

definition type_and_traits :: "string list \<Rightarrow> string \<times> string list" where
  "type_and_traits caps =
     (let deviceType = ''action.devices.types.OUTLET'';
          traits0 = [''action.devices.traits.OnOff'']
      in if array_includes caps ''light'' \<or> array_includes caps ''dimmer'' then
           (''action.devices.types.LIGHT'',
            if array_includes caps ''dimmer''
            then [''action.devices.traits.OnOff''] @ [''action.devices.traits.Brightness'']
            else [''action.devices.traits.OnOff''])
         else if array_includes caps ''fan'' \<or> array_includes caps ''speed'' then
           (''action.devices.types.FAN'',
            [''action.devices.traits.OnOff'', ''action.devices.traits.FanSpeed''])
         else if array_includes caps ''outlet'' then
           (''action.devices.types.OUTLET'', [''action.devices.traits.OnOff''])
         else (deviceType, traits0))"

definition convertToGoogleDevice :: "device \<Rightarrow> google_device" where
  "convertToGoogleDevice d =
     (let caps = capabilities_or_empty d;
          (deviceType, ts) = type_and_traits caps
      in \<lparr> gd_id = device_uuid d,
           gd_type = deviceType,
           traits = ts,
           gd_name = \<lparr> defaultNames = [device_name d],
                       name = label_or_name d,
                       nicknames = [label_or_name d] \<rparr>,
           willReportState = True,
           deviceInfo = \<lparr> manufacturer = ''Smart Home Panel'',
                          model = device_type d,
                          hwVersion = ''1.0'',
                          swVersion = ''1.0'' \<rparr> \<rparr>)"


text \<open>
  \<open>convertGoogleCommandToRpc\<close>. An execution carries a command name and a \<open>params\<close>
  object (\<open>None\<close> when the execution has no \<open>params\<close>; reading a property of it then
  raises a TypeError). None of the names read from \<open>params\<close> (\<open>on\<close>, \<open>fanSpeed\<close>,
  \<open>brightness\<close>) is a member of \<open>Object.prototype\<close>, so a missing own property reads
  as \<open>undefined\<close>.
\<close>

record execution =
  command :: string
  params :: "(string \<times> json) list option"

record rpc_command =
  rpc_method :: string
  rpc_params :: "(string \<times> jsval) list"
  resultState :: "(string \<times> jsval) list"

definition read_param :: "(string \<times> json) list option \<Rightarrow> string \<Rightarrow> error + json option" where
  "read_param ps key =
     (case ps of
        None \<Rightarrow> Inl (''Cannot read properties of undefined (reading '' @ key @ '')'')
      | Some own \<Rightarrow> Inr (map_of own key))"

definition of_json :: "json option \<Rightarrow> jsval" where
  "of_json v = (case v of None \<Rightarrow> Undefined | Some j \<Rightarrow> Json j)"

text \<open>
  Rows of table \<open>devices\<close> have no column \<open>device_id\<close>: \<open>device.device_id\<close> is
  \<open>undefined\<close> on every row the registry returns.
\<close>

definition device_id :: "device \<Rightarrow> jsval" where
  "device_id d = Undefined"

definition speedMap :: "(string \<times> jsval) list" where
  "speedMap =
     [(''speed_0'', Json (JNum 0)), (''speed_1'', Json (JNum 1)), (''speed_2'', Json (JNum 2)),
      (''speed_3'', Json (JNum 3)), (''speed_4'', Json (JNum 4)), (''speed_5'', Json (JNum 5))]"

definition convertGoogleCommandToRpc ::
  "string \<Rightarrow> (string \<times> json) list option \<Rightarrow> device \<Rightarrow> error + rpc_command option" where
  "convertGoogleCommandToRpc googleCommand ps d =
     (let caps = capabilities_or_empty d
      in if googleCommand = ''action.devices.commands.OnOff'' then
           (case read_param ps ''on'' of
              Inl e \<Rightarrow> Inl e
            | Inr v \<Rightarrow>
                Inr (Some \<lparr> rpc_method = ''setDeviceState'',
                            rpc_params = [(''device_id'', js_or (device_id d) (Json (JStr ''device1''))),
                                          (''state'', of_json v)],
                            resultState = [(''on'', of_json v)] \<rparr>))
         else if googleCommand = ''action.devices.commands.SetFanSpeed'' then
           (if array_includes caps ''fan'' \<or> array_includes caps ''speed'' then
              (case read_param ps ''fanSpeed'' of
                 Inl e \<Rightarrow> Inl e
               | Inr v \<Rightarrow>
                   (let speed = js_or (get_property speedMap (to_string v)) (Json (JNum 0))
                    in Inr (Some \<lparr> rpc_method = ''setFanSpeed'',
                                   rpc_params = [(''speed'', speed)],
                                   resultState = [(''currentFanSpeedSetting'', of_json v)] \<rparr>)))
            else Inr None)
         else if googleCommand = ''action.devices.commands.BrightnessAbsolute'' then
           (if array_includes caps ''dimmer'' then
              (case read_param ps ''brightness'' of
                 Inl e \<Rightarrow> Inl e
               | Inr v \<Rightarrow>
                   Inr (Some \<lparr> rpc_method = ''setBrightness'',
                               rpc_params = [(''brightness'', of_json v)],
                               resultState = [(''brightness'', of_json v)] \<rparr>))
            else Inr None)
         else Inr None)"

text \<open>
  \<open>convertToGoogleState\<close>. Telemetry is an object from a key to an array of data
  points; a point is represented by its \<open>value\<close> (\<open>None\<close> when it has none).
\<close>

type_synonym telemetry = "(string \<times> json option list) list"

record google_state =
  gs_on :: bool
  currentFanSpeedSetting :: "string option"

text \<open>\<open>telemetry[key]?.[0]?.value\<close>\<close>

definition first_value :: "telemetry \<Rightarrow> string \<Rightarrow> json option" where
  "first_value t key =
     (case map_of t key of None \<Rightarrow> None | Some [] \<Rightarrow> None | Some (v # _) \<Rightarrow> v)"

definition convertToGoogleState :: "device \<Rightarrow> telemetry option \<Rightarrow> 'a \<Rightarrow> google_state" where
  "convertToGoogleState d tele attributes =
     (case tele of
        None \<Rightarrow> \<lparr> gs_on = False, currentFanSpeedSetting = None \<rparr>
      | Some t \<Rightarrow>
          (let deviceStates =
                 map (first_value t)
                   (filter (\<lambda>key. str_includes key ''device'' \<and> str_includes key ''state'')
                      (map fst t))
           in \<lparr> gs_on = list_ex (\<lambda>s. s = Some (JNum 1) \<or> s = Some (JBool True)) deviceStates,
                currentFanSpeedSetting =
                  (case map_of t ''fan_speed'' of
                     None \<Rightarrow> None
                   | Some [] \<Rightarrow> None
                   | Some (v # _) \<Rightarrow> Some (''speed_'' @ to_string v)) \<rparr>))"


section \<open>The registry\<close>

record link =
  link_id :: int
  user_id :: int
  google_agent_user_id :: string
  last_sync_at :: "int option"
  link_is_active :: int

text \<open>
  The statements the fulfillment handlers run. Whether a statement raises (an error of
  the database library, or the SyntaxError of \<open>JSON.parse\<close> on a stored column) is
  not determined by the repository's code and is a parameter of the database:
  \<open>failing db stmt = Some e\<close> means that running \<open>stmt\<close> raises \<open>e\<close>.
\<close>

datatype db_stmt =
    FindByAgentUserId string
  | FindByUuid string
  | FindAllForSync int
  | UpdateLastSync string
  | Disconnect string

record database =
  devices_table :: "device list"
  links_table :: "link list"
  failing :: "db_stmt \<Rightarrow> error option"

definition run_stmt :: "database \<Rightarrow> db_stmt \<Rightarrow> 'a \<Rightarrow> error + 'a" where
  "run_stmt db stmt result = (case failing db stmt of Some e \<Rightarrow> Inl e | None \<Rightarrow> Inr result)"

text \<open>\<open>SELECT * FROM devices WHERE device_uuid = ? AND is_active = 1\<close>\<close>

definition findByUuid :: "database \<Rightarrow> string \<Rightarrow> error + device option" where
  "findByUuid db deviceUuid =
     run_stmt db (FindByUuid deviceUuid)
       (find (\<lambda>d. device_uuid d = deviceUuid \<and> is_active d = 1) (devices_table db))"

text \<open>
  \<open>SELECT ... FROM devices WHERE owner_user_id = ? AND is_active = 1 ORDER BY
  provisioned_at ASC\<close>. The table is kept in insertion order; rows with equal
  \<open>provisioned_at\<close> are returned in that order. The columns the query leaves out are
  not read by \<open>convertToGoogleDevice\<close>.
\<close>

definition findAllForSync :: "database \<Rightarrow> int \<Rightarrow> error + device list" where
  "findAllForSync db ownerUserId =
     run_stmt db (FindAllForSync ownerUserId)
       (sort_key provisioned_at
          (filter (\<lambda>d. owner_user_id d = ownerUserId \<and> is_active d = 1) (devices_table db)))"

text \<open>\<open>SELECT * FROM google_account_links WHERE google_agent_user_id = ? AND is_active = 1\<close>\<close>

definition findByAgentUserId :: "database \<Rightarrow> string \<Rightarrow> error + link option" where
  "findByAgentUserId db googleAgentUserId =
     run_stmt db (FindByAgentUserId googleAgentUserId)
       (find (\<lambda>l. google_agent_user_id l = googleAgentUserId \<and> link_is_active l = 1)
          (links_table db))"

text \<open>\<open>UPDATE google_account_links SET is_active = 0 WHERE google_agent_user_id = ?\<close>\<close>

definition disconnect :: "database \<Rightarrow> string \<Rightarrow> error + database" where
  "disconnect db googleAgentUserId =
     run_stmt db (Disconnect googleAgentUserId)
       (db\<lparr> links_table :=
              map (\<lambda>l. if google_agent_user_id l = googleAgentUserId
                        then l\<lparr> link_is_active := 0 \<rparr> else l)
                (links_table db) \<rparr>)"

text \<open>\<open>UPDATE google_account_links SET last_sync_at = ? WHERE google_agent_user_id = ?\<close>\<close>

definition updateLastSync :: "database \<Rightarrow> int \<Rightarrow> string \<Rightarrow> error + database" where
  "updateLastSync db now googleAgentUserId =
     run_stmt db (UpdateLastSync googleAgentUserId)
       (db\<lparr> links_table :=
              map (\<lambda>l. if google_agent_user_id l = googleAgentUserId
                        then l\<lparr> last_sync_at := Some now \<rparr> else l)
                (links_table db) \<rparr>)"


section \<open>The gateway\<close>

text \<open>
  The device platform is outside the repository. Its three requests are parameters,
  over a state \<open>'g\<close> of the platform and of the service's cached admin token: each
  stands for the body of the service method's \<open>try\<close> block (obtaining the admin token
  and the HTTP request), and returns the response data or the raised error.
\<close>

record 'g thingsboard_api =
  fetch_telemetry :: "'g \<Rightarrow> string \<Rightarrow> string list \<Rightarrow> (error + telemetry option) \<times> 'g"
  fetch_attributes :: "'g \<Rightarrow> string \<Rightarrow> string \<Rightarrow> (error + (string \<times> json) list option) \<times> 'g"
  post_rpc :: "'g \<Rightarrow> string \<Rightarrow> string \<Rightarrow> (string \<times> jsval) list \<Rightarrow> nat \<Rightarrow> (error + unit) \<times> 'g"

text \<open>\<open>getLatestTelemetry\<close> and \<open>getDeviceAttributes\<close>: the \<open>catch\<close> returns \<open>null\<close>.\<close>

definition getLatestTelemetry ::
  "'g thingsboard_api \<Rightarrow> 'g \<Rightarrow> string \<Rightarrow> string list \<Rightarrow> telemetry option \<times> 'g" where
  "getLatestTelemetry tb s deviceId keys =
     (case fetch_telemetry tb s deviceId keys of
        (Inl e, s') \<Rightarrow> (None, s')
      | (Inr data, s') \<Rightarrow> (data, s'))"

definition getDeviceAttributes ::
  "'g thingsboard_api \<Rightarrow> 'g \<Rightarrow> string \<Rightarrow> string \<Rightarrow> (string \<times> json) list option \<times> 'g" where
  "getDeviceAttributes tb s deviceId scope =
     (case fetch_attributes tb s deviceId scope of
        (Inl e, s') \<Rightarrow> (None, s')
      | (Inr data, s') \<Rightarrow> (data, s'))"

text \<open>\<open>sendRpcCommand\<close>: the \<open>catch\<close> raises a new error; the timeout defaults to 5000.\<close>

definition sendRpcCommand ::
  "'g thingsboard_api \<Rightarrow> 'g \<Rightarrow> string \<Rightarrow> string \<Rightarrow> (string \<times> jsval) list \<Rightarrow> (error + unit) \<times> 'g" where
  "sendRpcCommand tb s deviceId m ps =
     (case post_rpc tb s deviceId m ps 5000 of
        (Inl e, s') \<Rightarrow> (Inl (''RPC command failed: '' @ e), s')
      | (Inr u, s') \<Rightarrow> (Inr u, s'))"


section \<open>Requests and responses\<close>

text \<open>
  The request: the \<open>Authorization\<close> header and the parsed body. An input's payload
  carries a list of device ids (QUERY), a list of command groups (EXECUTE) or is
  missing.
\<close>

record command_group =
  cg_devices :: "string list"
  cg_execution :: "execution list"

datatype intent_payload =
    NoPayload
  | DevicesPayload "string list"
  | CommandsPayload "command_group list"

record input =
  intent :: string
  payload :: intent_payload

record request =
  authorization :: "string option"
  requestId :: "string option"
  inputs :: "input list option"

text \<open>The claims of a decoded token: \<open>agentUserId\<close> and the expiry \<open>exp\<close>.\<close>

record jwt_payload =
  agentUserId :: "string option"
  exp :: "int option"

text \<open>
  What the handlers read from the process: \<open>process.env.NODE_ENV\<close>, the library
  function \<open>jwt.decode\<close> (the decoded payload, \<open>null\<close> for a token it cannot decode,
  or a raised error) and \<open>Date.now()\<close>.
\<close>

record environment =
  NODE_ENV :: "string option"
  jwt_decode :: "string \<Rightarrow> error + jwt_payload option"
  date_now :: int

datatype query_entry =
    QuerySuccess bool google_state
  | QueryError string

datatype command_result =
    CommandSuccess "string list" "(string \<times> jsval) list"
  | CommandError "string list" string

datatype response_payload =
    ErrorPayload string "string option"
  | SyncPayload string "google_device list"
  | QueryPayload "(string \<times> query_entry) list"
  | ExecutePayload "command_result list"
  | EmptyPayload

datatype response_body =
    InvalidRequestFormat
  | Envelope "string option" response_payload

record response =
  http_status :: nat
  body :: response_body

text \<open>\<open>try { body } catch (error) { handler }\<close>\<close>

definition try_catch :: "error + 'a \<Rightarrow> (error \<Rightarrow> 'a) \<Rightarrow> 'a" where
  "try_catch result handler = (case result of Inl e \<Rightarrow> handler e | Inr v \<Rightarrow> v)"

definition auth_failure :: "request \<Rightarrow> response" where
  "auth_failure req =
     \<lparr> http_status = 401, body = Envelope (requestId req) (ErrorPayload ''authFailure'' None) \<rparr>"

definition hard_error :: "request \<Rightarrow> error \<Rightarrow> response" where
  "hard_error req e =
     \<lparr> http_status = 500, body = Envelope (requestId req) (ErrorPayload ''hardError'' (Some e)) \<rparr>"

definition empty_success :: "request \<Rightarrow> response" where
  "empty_success req = \<lparr> http_status = 200, body = Envelope (requestId req) EmptyPayload \<rparr>"


section \<open>The fulfillment handlers\<close>

definition extractAgentUserId :: "environment \<Rightarrow> request \<Rightarrow> string option" where
  "extractAgentUserId env req =
     (case authorization req of
        None \<Rightarrow> None
      | Some authHeader \<Rightarrow>
          if authHeader = [] \<or> \<not> prefix ''Bearer '' authHeader then None
          else (let token = drop 7 authHeader
                in case jwt_decode env token of
                     Inl e \<Rightarrow> None
                   | Inr None \<Rightarrow> None
                   | Inr (Some decoded) \<Rightarrow>
                       (case agentUserId decoded of
                          None \<Rightarrow> None
                        | Some a \<Rightarrow> if a = [] then None else Some a)))"

definition handleSync :: "environment \<Rightarrow> database \<Rightarrow> request \<Rightarrow> response \<times> database" where
  "handleSync env db req =
     try_catch
       (case extractAgentUserId env req of
          None \<Rightarrow> Inr (auth_failure req, db)
        | Some a \<Rightarrow>
            (case findByAgentUserId db a of
               Inl e \<Rightarrow> Inl e
             | Inr None \<Rightarrow> Inr (auth_failure req, db)
             | Inr (Some accountLink) \<Rightarrow>
                 (case findAllForSync db (user_id accountLink) of
                    Inl e \<Rightarrow> Inl e
                  | Inr devices \<Rightarrow>
                      (let googleDevices = map convertToGoogleDevice devices
                       in case updateLastSync db (date_now env) a of
                            Inl e \<Rightarrow> Inl e
                          | Inr db' \<Rightarrow>
                              Inr (\<lparr> http_status = 200,
                                     body = Envelope (requestId req) (SyncPayload a googleDevices) \<rparr>,
                                   db')))))
       (\<lambda>e. (hard_error req e, db))"

text \<open>The body of the QUERY loop for one requested device, with its \<open>try\<close>/\<open>catch\<close>.\<close>

definition query_device ::
  "'g thingsboard_api \<Rightarrow> database \<Rightarrow> link \<Rightarrow> string \<Rightarrow> 'g \<Rightarrow> query_entry \<times> 'g" where
  "query_device tb db accountLink deviceId s =
     (case findByUuid db deviceId of
        Inl e \<Rightarrow> (QueryError ''hardError'', s)
      | Inr None \<Rightarrow> (QueryError ''deviceNotFound'', s)
      | Inr (Some d) \<Rightarrow>
          if owner_user_id d \<noteq> user_id accountLink then (QueryError ''deviceNotFound'', s)
          else (let (tele, s1) =
                      getLatestTelemetry tb s (thingsboard_device_id d)
                        [''device1_state'', ''device2_state'', ''device3_state'',
                         ''device4_state'', ''fan_speed''];
                    (attributes, s2) =
                      getDeviceAttributes tb s1 (thingsboard_device_id d) ''SERVER_SCOPE''
                in (QuerySuccess (is_online d = 1) (convertToGoogleState d tele attributes), s2)))"

fun query_devices ::
  "'g thingsboard_api \<Rightarrow> database \<Rightarrow> link \<Rightarrow> string list \<Rightarrow> (string \<times> query_entry) list \<Rightarrow> 'g
     \<Rightarrow> (string \<times> query_entry) list \<times> 'g" where
  "query_devices tb db accountLink [] deviceStates s = (deviceStates, s)"
| "query_devices tb db accountLink (deviceId # rest) deviceStates s =
     (let (entry, s') = query_device tb db accountLink deviceId s
      in query_devices tb db accountLink rest (set_property deviceStates deviceId entry) s')"

definition handleQuery ::
  "environment \<Rightarrow> 'g thingsboard_api \<Rightarrow> database \<Rightarrow> 'g \<Rightarrow> request \<Rightarrow> response \<times> 'g" where
  "handleQuery env tb db s req =
     try_catch
       (case extractAgentUserId env req of
          None \<Rightarrow> Inr (auth_failure req, s)
        | Some a \<Rightarrow>
            (case findByAgentUserId db a of
               Inl e \<Rightarrow> Inl e
             | Inr None \<Rightarrow> Inr (auth_failure req, s)
             | Inr (Some accountLink) \<Rightarrow>
                 (case inputs req of
                    None \<Rightarrow> Inl ''Cannot read properties of undefined (reading 0)''
                  | Some [] \<Rightarrow> Inl ''Cannot read properties of undefined (reading payload)''
                  | Some (i # _) \<Rightarrow>
                      (case payload i of
                         NoPayload \<Rightarrow> Inl ''Cannot read properties of undefined (reading devices)''
                       | CommandsPayload cs \<Rightarrow> Inl ''requestedDevices is not iterable''
                       | DevicesPayload requestedDevices \<Rightarrow>
                           (let (deviceStates, s') =
                                  query_devices tb db accountLink requestedDevices [] s
                            in Inr (\<lparr> http_status = 200,
                                      body = Envelope (requestId req) (QueryPayload deviceStates) \<rparr>,
                                    s'))))))
       (\<lambda>e. (hard_error req e, s))"

text \<open>
  The innermost EXECUTE loop, over the executions of one command group for one owned
  device. It stops at the first raised error, which it returns with the results pushed
  so far.
\<close>

fun execute_each ::
  "'g thingsboard_api \<Rightarrow> device \<Rightarrow> string \<Rightarrow> execution list \<Rightarrow> command_result list \<Rightarrow> 'g
     \<Rightarrow> error option \<times> command_result list \<times> 'g" where
  "execute_each tb dbDevice deviceId [] commandResults s = (None, commandResults, s)"
| "execute_each tb dbDevice deviceId (ex # rest) commandResults s =
     (case convertGoogleCommandToRpc (command ex) (params ex) dbDevice of
        Inl e \<Rightarrow> (Some e, commandResults, s)
      | Inr None \<Rightarrow>
          execute_each tb dbDevice deviceId rest
            (commandResults @ [CommandError [deviceId] ''functionNotSupported'']) s
      | Inr (Some rpcCommand) \<Rightarrow>
          (case sendRpcCommand tb s (thingsboard_device_id dbDevice)
                  (rpc_method rpcCommand) (rpc_params rpcCommand) of
             (Inl e, s') \<Rightarrow> (Some e, commandResults, s')
           | (Inr u, s') \<Rightarrow>
               execute_each tb dbDevice deviceId rest
                 (commandResults @
                    [CommandSuccess [deviceId]
                       ((''online'', Json (JBool True)) # resultState rpcCommand)])
                 s'))"

text \<open>The body of the loop over the devices of a command group, with its \<open>try\<close>/\<open>catch\<close>.\<close>

definition execute_device ::
  "'g thingsboard_api \<Rightarrow> database \<Rightarrow> link \<Rightarrow> command_group \<Rightarrow> string \<Rightarrow> command_result list \<Rightarrow> 'g
     \<Rightarrow> command_result list \<times> 'g" where
  "execute_device tb db accountLink cg deviceId commandResults s =
     (case findByUuid db deviceId of
        Inl e \<Rightarrow> (commandResults @ [CommandError [deviceId] ''hardError''], s)
      | Inr None \<Rightarrow> (commandResults @ [CommandError [deviceId] ''deviceNotFound''], s)
      | Inr (Some dbDevice) \<Rightarrow>
          if owner_user_id dbDevice \<noteq> user_id accountLink
          then (commandResults @ [CommandError [deviceId] ''deviceNotFound''], s)
          else (case execute_each tb dbDevice deviceId (cg_execution cg) commandResults s of
                  (None, rs, s') \<Rightarrow> (rs, s')
                | (Some e, rs, s') \<Rightarrow> (rs @ [CommandError [deviceId] ''hardError''], s')))"

fun execute_devices ::
  "'g thingsboard_api \<Rightarrow> database \<Rightarrow> link \<Rightarrow> command_group \<Rightarrow> string list \<Rightarrow> command_result list \<Rightarrow> 'g
     \<Rightarrow> command_result list \<times> 'g" where
  "execute_devices tb db accountLink cg [] commandResults s = (commandResults, s)"
| "execute_devices tb db accountLink cg (deviceId # rest) commandResults s =
     (let (rs, s') = execute_device tb db accountLink cg deviceId commandResults s
      in execute_devices tb db accountLink cg rest rs s')"

fun execute_commands ::
  "'g thingsboard_api \<Rightarrow> database \<Rightarrow> link \<Rightarrow> command_group list \<Rightarrow> command_result list \<Rightarrow> 'g
     \<Rightarrow> command_result list \<times> 'g" where
  "execute_commands tb db accountLink [] commandResults s = (commandResults, s)"
| "execute_commands tb db accountLink (cg # rest) commandResults s =
     (let (rs, s') = execute_devices tb db accountLink cg (cg_devices cg) commandResults s
      in execute_commands tb db accountLink rest rs s')"

definition handleExecute ::
  "environment \<Rightarrow> 'g thingsboard_api \<Rightarrow> database \<Rightarrow> 'g \<Rightarrow> request \<Rightarrow> response \<times> 'g" where
  "handleExecute env tb db s req =
     try_catch
       (case extractAgentUserId env req of
          None \<Rightarrow> Inr (auth_failure req, s)
        | Some a \<Rightarrow>
            (case findByAgentUserId db a of
               Inl e \<Rightarrow> Inl e
             | Inr None \<Rightarrow> Inr (auth_failure req, s)
             | Inr (Some accountLink) \<Rightarrow>
                 (case inputs req of
                    None \<Rightarrow> Inl ''Cannot read properties of undefined (reading 0)''
                  | Some [] \<Rightarrow> Inl ''Cannot read properties of undefined (reading payload)''
                  | Some (i # _) \<Rightarrow>
                      (case payload i of
                         NoPayload \<Rightarrow> Inl ''Cannot read properties of undefined (reading commands)''
                       | DevicesPayload ds \<Rightarrow> Inl ''commands is not iterable''
                       | CommandsPayload commands \<Rightarrow>
                           (let (commandResults, s') =
                                  execute_commands tb db accountLink commands [] s
                            in Inr (\<lparr> http_status = 200,
                                      body = Envelope (requestId req) (ExecutePayload commandResults) \<rparr>,
                                    s'))))))
       (\<lambda>e. (hard_error req e, s))"

definition handleDisconnect :: "environment \<Rightarrow> database \<Rightarrow> request \<Rightarrow> response \<times> database" where
  "handleDisconnect env db req =
     try_catch
       (case extractAgentUserId env req of
          None \<Rightarrow> Inr (empty_success req, db)
        | Some a \<Rightarrow>
            (case disconnect db a of
               Inl e \<Rightarrow> Inl e
             | Inr db' \<Rightarrow> Inr (empty_success req, db')))
       (\<lambda>e. (empty_success req, db))"

text \<open>
  \<open>router.post('/fulfillment', ...)\<close>. A \<open>requestId\<close> that is missing or empty is
  falsy; \<open>inputs = None\<close> stands for a missing \<open>inputs\<close> or one that is not an array.
\<close>

definition fulfillment ::
  "environment \<Rightarrow> 'g thingsboard_api \<Rightarrow> database \<times> 'g \<Rightarrow> request \<Rightarrow> response \<times> database \<times> 'g" where
  "fulfillment env tb st req =
     (let (db, s) = st
      in try_catch
           (case inputs req of
              None \<Rightarrow> Inr (\<lparr> http_status = 400, body = InvalidRequestFormat \<rparr>, db, s)
            | Some ins \<Rightarrow>
                if requestId req = None \<or> requestId req = Some [] then
                  Inr (\<lparr> http_status = 400, body = InvalidRequestFormat \<rparr>, db, s)
                else
                  (case ins of
                     [] \<Rightarrow> Inl ''Cannot read properties of undefined (reading intent)''
                   | i # _ \<Rightarrow>
                   if intent i = ''action.devices.SYNC'' then
                     (let (res, db') = handleSync env db req in Inr (res, db', s))
                   else if intent i = ''action.devices.QUERY'' then
                     (let (res, s') = handleQuery env tb db s req in Inr (res, db, s'))
                   else if intent i = ''action.devices.EXECUTE'' then
                     (let (res, s') = handleExecute env tb db s req in Inr (res, db, s'))
                   else if intent i = ''action.devices.DISCONNECT'' then
                     (let (res, db') = handleDisconnect env db req in Inr (res, db', s))
                   else
                     Inr (\<lparr> http_status = 400,
                            body = Envelope (requestId req) (ErrorPayload ''notSupported'' None) \<rparr>,
                          db, s)))
           (\<lambda>e. (hard_error req e, db, s)))"


section \<open>Example data\<close>

definition lamp :: device where
  "lamp = \<lparr> device_uuid = ''uuid-lamp'', thingsboard_device_id = ''tb-lamp'',
            device_name = ''Lamp'', device_type = ''panel'', owner_user_id = 1,
            device_label = Some ''Desk lamp'', capabilities = Some [''light'', ''dimmer''],
            provisioned_at = 100, is_online = 1, is_active = 1 \<rparr>"

definition ceiling_fan :: device where
  "ceiling_fan = \<lparr> device_uuid = ''uuid-fan'', thingsboard_device_id = ''tb-fan'',
            device_name = ''Fan'', device_type = ''panel'', owner_user_id = 1,
            device_label = None, capabilities = Some [''fan'', ''speed''],
            provisioned_at = 200, is_online = 0, is_active = 1 \<rparr>"

definition old_plug :: device where
  "old_plug = \<lparr> device_uuid = ''uuid-old'', thingsboard_device_id = ''tb-old'',
            device_name = ''Old plug'', device_type = ''panel'', owner_user_id = 1,
            device_label = None, capabilities = Some [''outlet''],
            provisioned_at = 50, is_online = 0, is_active = 0 \<rparr>"

definition sensor :: device where
  "sensor = \<lparr> device_uuid = ''uuid-sensor'', thingsboard_device_id = ''tb-sensor'',
            device_name = ''Sensor'', device_type = ''panel'', owner_user_id = 2,
            device_label = None, capabilities = Some [''thermometer''],
            provisioned_at = 150, is_online = 1, is_active = 1 \<rparr>"

definition alice_link :: link where
  "alice_link = \<lparr> link_id = 1, user_id = 1, google_agent_user_id = ''agent-alice'',
            last_sync_at = None, link_is_active = 1 \<rparr>"

definition home_db :: database where
  "home_db = \<lparr> devices_table = [old_plug, lamp, sensor, ceiling_fan],
               links_table = [alice_link],
               failing = (\<lambda>stmt. None) \<rparr>"

text \<open>The same tables on a database whose SYNC query and whose updates raise.\<close>

definition locked_db :: database where
  "locked_db = home_db \<lparr> failing :=
       (\<lambda>stmt. case stmt of
                  FindAllForSync u \<Rightarrow> Some ''database is locked''
                | Disconnect a \<Rightarrow> Some ''database is locked''
                | UpdateLastSync a \<Rightarrow> Some ''database is locked''
                | _ \<Rightarrow> None) \<rparr>"

text \<open>
  A production process whose \<open>jwt.decode\<close> decodes two tokens: one of the linked
  subject, long expired, and one of a subject without a link.
\<close>

definition prod_env :: environment where
  "prod_env = \<lparr> NODE_ENV = Some ''production'',
                jwt_decode =
                  (\<lambda>token. if token = ''tok-alice''
                            then Inr (Some \<lparr> agentUserId = Some ''agent-alice'', exp = Some 0 \<rparr>)
                            else if token = ''tok-ghost''
                            then Inr (Some \<lparr> agentUserId = Some ''agent-ghost'', exp = None \<rparr>)
                            else Inr None),
                date_now = 1700000000000 \<rparr>"

text \<open>Two platforms, with the number of requests received as state.\<close>

definition online_tb :: "nat thingsboard_api" where
  "online_tb = \<lparr> fetch_telemetry =
                   (\<lambda>s deviceId keys. (Inr (Some [(''device1_state'', [Some (JNum 1)])]), Suc s)),
                 fetch_attributes = (\<lambda>s deviceId scope. (Inr (Some []), Suc s)),
                 post_rpc = (\<lambda>s deviceId m ps timeout. (Inr (), Suc s)) \<rparr>"

definition offline_tb :: "nat thingsboard_api" where
  "offline_tb = \<lparr> fetch_telemetry = (\<lambda>s deviceId keys. (Inl ''connect ETIMEDOUT'', Suc s)),
                  fetch_attributes = (\<lambda>s deviceId scope. (Inl ''connect ETIMEDOUT'', Suc s)),
                  post_rpc = (\<lambda>s deviceId m ps timeout. (Inl ''connect ETIMEDOUT'', Suc s)) \<rparr>"

definition on_command :: execution where
  "on_command = \<lparr> command = ''action.devices.commands.OnOff'',
                  params = Some [(''on'', JBool True)] \<rparr>"

definition fan_command :: "string \<Rightarrow> execution" where
  "fan_command label = \<lparr> command = ''action.devices.commands.SetFanSpeed'',
                         params = Some [(''fanSpeed'', JStr label)] \<rparr>"

definition request_of :: "string \<Rightarrow> string \<Rightarrow> intent_payload \<Rightarrow> request" where
  "request_of token intent_name p =
     \<lparr> authorization = Some (''Bearer '' @ token),
       requestId = Some ''req-1'',
       inputs = Some [\<lparr> intent = intent_name, payload = p \<rparr>] \<rparr>"

definition sensor_group :: command_group where
  "sensor_group = \<lparr> cg_devices = [''uuid-sensor''],
                     cg_execution = [on_command, fan_command ''speed_3''] \<rparr>"

definition mixed_group :: command_group where
  "mixed_group = \<lparr> cg_devices = [''uuid-sensor'', ''uuid-fan''],
                    cg_execution = [on_command, fan_command ''speed_3''] \<rparr>"


definition lamp_group :: command_group where
  "lamp_group = \<lparr> cg_devices = [''uuid-lamp''],
                   cg_execution = [on_command, fan_command ''speed_1''] \<rparr>"


section \<open>Vocabulary of the properties\<close>

text \<open>
  The ownership check of QUERY and EXECUTE, read off the table: the active device with
  this identifier exists and belongs to the link's user.
\<close>

definition owns :: "database \<Rightarrow> link \<Rightarrow> string \<Rightarrow> bool" where
  "owns db accountLink deviceId =
     (case find (\<lambda>d. device_uuid d = deviceId \<and> is_active d = 1) (devices_table db) of
        None \<Rightarrow> False
      | Some d \<Rightarrow> owner_user_id d = user_id accountLink)"

text \<open>The (device, execution) pairs an EXECUTE batch asks for.\<close>

definition requested_pairs :: "command_group list \<Rightarrow> (string \<times> execution) list" where
  "requested_pairs commands =
     concat (map (\<lambda>cg. List.product (cg_devices cg) (cg_execution cg)) commands)"


text \<open>
  What the amended claim C3 says an EXECUTE response holds, written from the batch: the
  entry of a (device, execution) pair of an owned device, the entries of a device in a
  command group, and the entries of the batch in request order.
\<close>

definition pair_entry :: "device \<Rightarrow> string \<Rightarrow> execution \<Rightarrow> command_result" where
  "pair_entry d deviceId ex =
     (case convertGoogleCommandToRpc (command ex) (params ex) d of
        Inr (Some rpcCommand) \<Rightarrow>
          CommandSuccess [deviceId] ((''online'', Json (JBool True)) # resultState rpcCommand)
      | _ \<Rightarrow> CommandError [deviceId] ''functionNotSupported'')"

definition device_entries :: "database \<Rightarrow> link \<Rightarrow> command_group \<Rightarrow> string \<Rightarrow> command_result list" where
  "device_entries db accountLink cg deviceId =
     (case find (\<lambda>d. device_uuid d = deviceId \<and> is_active d = 1) (devices_table db) of
        None \<Rightarrow> [CommandError [deviceId] ''deviceNotFound'']
      | Some d \<Rightarrow>
          if owner_user_id d = user_id accountLink
          then map (pair_entry d deviceId) (cg_execution cg)
          else [CommandError [deviceId] ''deviceNotFound''])"

definition batch_entries :: "database \<Rightarrow> link \<Rightarrow> command_group list \<Rightarrow> command_result list" where
  "batch_entries db accountLink commands =
     concat (map (\<lambda>cg. concat (map (device_entries db accountLink cg) (cg_devices cg))) commands)"

text \<open>The telemetry keys that QUERY asks the gateway for.\<close>

definition telemetry_keys :: "string list" where
  "telemetry_keys = [''device1_state'', ''device2_state'', ''device3_state'', ''device4_state'', ''fan_speed'']"


text \<open>The rows SYNC is to list for a link: the active devices of its user.\<close>

definition active_owned :: "link \<Rightarrow> device \<Rightarrow> bool" where
  "active_owned accountLink d \<longleftrightarrow> owner_user_id d = user_id accountLink \<and> is_active d = 1"


text \<open>The intents whose handlers look the account link up before acting.\<close>

definition guarded_intents :: "string set" where
  "guarded_intents = {''action.devices.SYNC'', ''action.devices.QUERY'', ''action.devices.EXECUTE''}"


section \<open>Properties of the translation\<close>

lemma array_includes_set: "array_includes xs x \<longleftrightarrow> x \<in> set xs"
  by (induction xs) auto

text \<open>
  Claim C1. For every device, with any capability list (empty, absent or made of
  unrecognised strings included), \<open>convertToGoogleDevice\<close> produces a descriptor whose
  type and traits follow the priority order: LIGHT with OnOff, plus Brightness exactly
  when \<open>dimmer\<close> is present, if the list has \<open>light\<close> or \<open>dimmer\<close>; otherwise FAN
  with OnOff and FanSpeed if it has \<open>fan\<close> or \<open>speed\<close>; otherwise OUTLET with OnOff,
  whether \<open>outlet\<close> is present or nothing is recognised.
\<close>

theorem convertToGoogleDevice_priority:
  fixes d :: device
  defines "caps \<equiv> (case capabilities d of None \<Rightarrow> {} | Some cs \<Rightarrow> set cs)"
  shows "(''light'' \<in> caps \<or> ''dimmer'' \<in> caps \<longrightarrow>
            gd_type (convertToGoogleDevice d) = ''action.devices.types.LIGHT'' \<and>
            traits (convertToGoogleDevice d) =
              (if ''dimmer'' \<in> caps
               then [''action.devices.traits.OnOff'', ''action.devices.traits.Brightness'']
               else [''action.devices.traits.OnOff'']))
       \<and> (''light'' \<notin> caps \<and> ''dimmer'' \<notin> caps \<and> (''fan'' \<in> caps \<or> ''speed'' \<in> caps) \<longrightarrow>
            gd_type (convertToGoogleDevice d) = ''action.devices.types.FAN'' \<and>
            traits (convertToGoogleDevice d) =
              [''action.devices.traits.OnOff'', ''action.devices.traits.FanSpeed''])
       \<and> (''light'' \<notin> caps \<and> ''dimmer'' \<notin> caps \<and> ''fan'' \<notin> caps \<and> ''speed'' \<notin> caps \<longrightarrow>
            gd_type (convertToGoogleDevice d) = ''action.devices.types.OUTLET'' \<and>
            traits (convertToGoogleDevice d) = [''action.devices.traits.OnOff''])
       \<and> gd_id (convertToGoogleDevice d) = device_uuid d"
  unfolding caps_def
  by (cases "capabilities d")
     (simp_all add: convertToGoogleDevice_def type_and_traits_def capabilities_or_empty_def
        array_includes_set Let_def)

theorem convertToGoogleDevice_priority_witness:
  "gd_type (convertToGoogleDevice lamp) = ''action.devices.types.LIGHT'' \<and>
   traits (convertToGoogleDevice lamp) =
     [''action.devices.traits.OnOff'', ''action.devices.traits.Brightness''] \<and>
   gd_type (convertToGoogleDevice ceiling_fan) = ''action.devices.types.FAN'' \<and>
   traits (convertToGoogleDevice ceiling_fan) =
     [''action.devices.traits.OnOff'', ''action.devices.traits.FanSpeed''] \<and>
   gd_type (convertToGoogleDevice sensor) = ''action.devices.types.OUTLET'' \<and>
   traits (convertToGoogleDevice sensor) = [''action.devices.traits.OnOff'']"
  using convertToGoogleDevice_priority [of lamp] convertToGoogleDevice_priority [of ceiling_fan]
    convertToGoogleDevice_priority [of sensor]
  by (simp add: lamp_def ceiling_fan_def sensor_def)

subsection \<open>Fan speed\<close>

lemma has_fan_capability:
  "array_includes (capabilities_or_empty ceiling_fan) ''fan''"
  by (simp add: ceiling_fan_def capabilities_or_empty_def)

text \<open>
  Claim C4. A fan-speed command against a device with \<open>fan\<close> or \<open>speed\<close> is
  translated to \<open>setFanSpeed\<close> with the label echoed unchanged, and the labels
  \<open>speed_0\<close> to \<open>speed_5\<close> give the speeds 0 to 5 (lemma \<open>setFanSpeed_translation\<close>
  below). The claim that every other label gives speed 0 fails on the code for the
  labels that name a member of \<open>Object.prototype\<close>: \<open>speedMap\<close> is an object literal,
  so \<open>speedMap['constructor']\<close> is the inherited constructor, which is truthy, and
  \<open>|| 0\<close> does not apply. The speed sent for the label \<open>constructor\<close> is that
  function, not 0.
\<close>

theorem setFanSpeed_inherited_label:
  "convertGoogleCommandToRpc ''action.devices.commands.SetFanSpeed''
     (Some [(''fanSpeed'', JStr ''constructor'')]) ceiling_fan =
   Inr (Some \<lparr> rpc_method = ''setFanSpeed'',
               rpc_params = [(''speed'', Inherited ''constructor'')],
               resultState = [(''currentFanSpeedSetting'', Json (JStr ''constructor''))] \<rparr>)"
  by (simp add: convertGoogleCommandToRpc_def has_fan_capability read_param_def get_property_def
      speedMap_def object_prototype_members_def js_or_def of_json_def)

lemma setFanSpeed_translation:
  assumes caps: "''fan'' \<in> set (capabilities_or_empty d) \<or> ''speed'' \<in> set (capabilities_or_empty d)"
    and label: "map_of ps ''fanSpeed'' = Some (JStr label)"
  shows "\<exists>speed. convertGoogleCommandToRpc ''action.devices.commands.SetFanSpeed'' (Some ps) d =
           Inr (Some \<lparr> rpc_method = ''setFanSpeed'', rpc_params = [(''speed'', speed)],
                       resultState = [(''currentFanSpeedSetting'', Json (JStr label))] \<rparr>) \<and>
           (label = ''speed_0'' \<longrightarrow> speed = Json (JNum 0)) \<and>
           (label = ''speed_1'' \<longrightarrow> speed = Json (JNum 1)) \<and>
           (label = ''speed_2'' \<longrightarrow> speed = Json (JNum 2)) \<and>
           (label = ''speed_3'' \<longrightarrow> speed = Json (JNum 3)) \<and>
           (label = ''speed_4'' \<longrightarrow> speed = Json (JNum 4)) \<and>
           (label = ''speed_5'' \<longrightarrow> speed = Json (JNum 5)) \<and>
           (label \<notin> fst ` set speedMap \<and> label \<notin> set object_prototype_members \<longrightarrow>
              speed = Json (JNum 0)) \<and>
           (label \<in> set object_prototype_members \<longrightarrow> speed = Inherited label)"
  using caps label
  by (auto simp add: convertGoogleCommandToRpc_def array_includes_set read_param_def
      get_property_def speedMap_def object_prototype_members_def js_or_def of_json_def)

section \<open>Properties of EXECUTE\<close>

lemma execute_each_appends:
  "\<exists>more. fst (snd (execute_each tb d deviceId exs rs s)) = rs @ more"
proof (induction exs arbitrary: rs s)
  case Nil
  then show ?case by simp
next
  case (Cons ex exs)
  show ?case
  proof (cases "convertGoogleCommandToRpc (command ex) (params ex) d")
    case (Inl e)
    then show ?thesis by simp
  next
    case (Inr r)
    show ?thesis
    proof (cases r)
      case None
      with Inr Cons.IH [of "rs @ [CommandError [deviceId] ''functionNotSupported'']" s]
      show ?thesis by auto
    next
      case (Some rpc)
      obtain out s' where call:
        "sendRpcCommand tb s (thingsboard_device_id d) (rpc_method rpc) (rpc_params rpc) = (out, s')"
        by (cases "sendRpcCommand tb s (thingsboard_device_id d) (rpc_method rpc) (rpc_params rpc)")
      show ?thesis
      proof (cases out)
        case (Inl e)
        with Inr Some call show ?thesis by simp
      next
        case (Inr u)
        with \<open>convertGoogleCommandToRpc (command ex) (params ex) d = Inr r\<close> Some call
          Cons.IH [of "rs @ [CommandSuccess [deviceId]
                       ((''online'', Json (JBool True)) # resultState rpc)]" s']
        show ?thesis by auto
      qed
    qed
  qed
qed

lemma convert_with_params:
  "\<exists>r. convertGoogleCommandToRpc c (Some ps) d = Inr r"
  by (simp add: convertGoogleCommandToRpc_def read_param_def Let_def)

lemma sendRpcCommand_ok:
  assumes "\<forall>s deviceId m ps t. fst (post_rpc tb s deviceId m ps t) = Inr ()"
  shows "\<exists>s'. sendRpcCommand tb s deviceId m ps = (Inr (), s')"
proof -
  obtain out s' where call: "post_rpc tb s deviceId m ps 5000 = (out, s')"
    by (cases "post_rpc tb s deviceId m ps 5000")
  with assms have "out = Inr ()" by (metis fst_conv)
  with call show ?thesis by (simp add: sendRpcCommand_def)
qed

lemma execute_each_contents:
  assumes rpc: "\<forall>s deviceId m ps t. fst (post_rpc tb s deviceId m ps t) = Inr ()"
    and ps: "\<forall>ex \<in> set exs. params ex \<noteq> None"
  shows "\<exists>s'. execute_each tb d deviceId exs rs s = (None, rs @ map (pair_entry d deviceId) exs, s')"
  using ps
proof (induction exs arbitrary: rs s)
  case Nil
  then show ?case by simp
next
  case (Cons ex exs)
  from Cons.prems obtain own where own: "params ex = Some own" by auto
  obtain r where conv: "convertGoogleCommandToRpc (command ex) (params ex) d = Inr r"
    using convert_with_params own by metis
  from Cons.prems have rest: "\<forall>ex \<in> set exs. params ex \<noteq> None" by simp
  show ?case
  proof (cases r)
    case None
    with conv have entry: "pair_entry d deviceId ex = CommandError [deviceId] ''functionNotSupported''"
      by (simp add: pair_entry_def)
    obtain s' where
      "execute_each tb d deviceId exs (rs @ [CommandError [deviceId] ''functionNotSupported'']) s =
         (None, (rs @ [CommandError [deviceId] ''functionNotSupported'']) @
                map (pair_entry d deviceId) exs, s')"
      using Cons.IH [OF rest] by blast
    with conv None entry show ?thesis by simp
  next
    case (Some rpc_cmd)
    with conv have entry: "pair_entry d deviceId ex =
        CommandSuccess [deviceId] ((''online'', Json (JBool True)) # resultState rpc_cmd)"
      by (simp add: pair_entry_def)
    obtain s1 where call:
      "sendRpcCommand tb s (thingsboard_device_id d) (rpc_method rpc_cmd) (rpc_params rpc_cmd) =
         (Inr (), s1)"
      using sendRpcCommand_ok [OF rpc] by blast
    obtain s' where
      "execute_each tb d deviceId exs
         (rs @ [CommandSuccess [deviceId] ((''online'', Json (JBool True)) # resultState rpc_cmd)]) s1 =
         (None, (rs @ [CommandSuccess [deviceId]
                        ((''online'', Json (JBool True)) # resultState rpc_cmd)]) @
                map (pair_entry d deviceId) exs, s')"
      using Cons.IH [OF rest] by blast
    with conv Some call entry show ?thesis by simp
  qed
qed

lemma execute_device_contents:
  assumes db_ok: "failing db (FindByUuid deviceId) = None"
    and rpc: "\<forall>s deviceId m ps t. fst (post_rpc tb s deviceId m ps t) = Inr ()"
    and ps: "\<forall>ex \<in> set (cg_execution cg). params ex \<noteq> None"
  shows "\<exists>s'. execute_device tb db accountLink cg deviceId rs s =
           (rs @ device_entries db accountLink cg deviceId, s')"
proof (cases "find (\<lambda>d. device_uuid d = deviceId \<and> is_active d = 1) (devices_table db)")
  case None
  with db_ok show ?thesis
    by (simp add: execute_device_def findByUuid_def run_stmt_def device_entries_def)
next
  case (Some d)
  show ?thesis
  proof (cases "owner_user_id d = user_id accountLink")
    case False
    with Some db_ok show ?thesis
      by (simp add: execute_device_def findByUuid_def run_stmt_def device_entries_def)
  next
    case True
    obtain s' where
      "execute_each tb d deviceId (cg_execution cg) rs s =
         (None, rs @ map (pair_entry d deviceId) (cg_execution cg), s')"
      using execute_each_contents [OF rpc ps] by blast
    with Some True db_ok show ?thesis
      by (simp add: execute_device_def findByUuid_def run_stmt_def device_entries_def)
  qed
qed

lemma execute_devices_contents:
  assumes db_ok: "\<forall>deviceId. failing db (FindByUuid deviceId) = None"
    and rpc: "\<forall>s deviceId m ps t. fst (post_rpc tb s deviceId m ps t) = Inr ()"
    and ps: "\<forall>ex \<in> set (cg_execution cg). params ex \<noteq> None"
  shows "\<exists>s'. execute_devices tb db accountLink cg ids rs s =
           (rs @ concat (map (device_entries db accountLink cg) ids), s')"
proof (induction ids arbitrary: rs s)
  case Nil
  then show ?case by simp
next
  case (Cons deviceId ids)
  from db_ok have one: "failing db (FindByUuid deviceId) = None" by simp
  obtain s1 where first:
    "execute_device tb db accountLink cg deviceId rs s =
       (rs @ device_entries db accountLink cg deviceId, s1)"
    using execute_device_contents [OF one rpc ps] by blast
  obtain s2 where rest:
    "execute_devices tb db accountLink cg ids (rs @ device_entries db accountLink cg deviceId) s1 =
       ((rs @ device_entries db accountLink cg deviceId) @
          concat (map (device_entries db accountLink cg) ids), s2)"
    using Cons.IH by blast
  from first rest show ?case by simp
qed

lemma execute_commands_contents:
  assumes db_ok: "\<forall>deviceId. failing db (FindByUuid deviceId) = None"
    and rpc: "\<forall>s deviceId m ps t. fst (post_rpc tb s deviceId m ps t) = Inr ()"
    and ps: "\<forall>cg \<in> set commands. \<forall>ex \<in> set (cg_execution cg). params ex \<noteq> None"
  shows "\<exists>s'. execute_commands tb db accountLink commands rs s =
           (rs @ batch_entries db accountLink commands, s')"
  using ps
proof (induction commands arbitrary: rs s)
  case Nil
  then show ?case by (simp add: batch_entries_def)
next
  case (Cons cg commands)
  from Cons.prems have here: "\<forall>ex \<in> set (cg_execution cg). params ex \<noteq> None"
    and later: "\<forall>cg \<in> set commands. \<forall>ex \<in> set (cg_execution cg). params ex \<noteq> None"
    by simp_all
  obtain s1 where first:
    "execute_devices tb db accountLink cg (cg_devices cg) rs s =
       (rs @ concat (map (device_entries db accountLink cg) (cg_devices cg)), s1)"
    using execute_devices_contents [OF db_ok rpc here] by blast
  obtain s2 where rest:
    "execute_commands tb db accountLink commands
       (rs @ concat (map (device_entries db accountLink cg) (cg_devices cg))) s1 =
       ((rs @ concat (map (device_entries db accountLink cg) (cg_devices cg))) @
          batch_entries db accountLink commands, s2)"
    using Cons.IH [OF later] by blast
  from first rest show ?case by (simp add: batch_entries_def)
qed

lemma length_device_entries:
  "length (device_entries db accountLink cg deviceId) =
     (if owns db accountLink deviceId then length (cg_execution cg) else 1)"
  by (simp add: device_entries_def owns_def split: option.splits)

lemma length_batch_entries:
  "length (batch_entries db accountLink commands) =
     (\<Sum>cg\<leftarrow>commands. \<Sum>deviceId\<leftarrow>cg_devices cg.
        if owns db accountLink deviceId then length (cg_execution cg) else 1)"
  by (simp add: batch_entries_def length_concat comp_def length_device_entries)

subsection \<open>The example registry\<close>

lemma find_home_db:
  "find (\<lambda>d. device_uuid d = ''uuid-sensor'' \<and> is_active d = 1) (devices_table home_db) = Some sensor"
  "find (\<lambda>d. device_uuid d = ''uuid-fan'' \<and> is_active d = 1) (devices_table home_db) = Some ceiling_fan"
  "find (\<lambda>d. device_uuid d = ''uuid-lamp'' \<and> is_active d = 1) (devices_table home_db) = Some lamp"
  "find (\<lambda>d. device_uuid d = ''__proto__'' \<and> is_active d = 1) (devices_table home_db) = None"
  by (simp_all add: home_db_def old_plug_def lamp_def sensor_def ceiling_fan_def)

lemma alice_authenticated:
  "extractAgentUserId prod_env (request_of ''tok-alice'' i p) = Some ''agent-alice''"
  by (simp add: extractAgentUserId_def request_of_def prod_env_def)

lemma alice_linked:
  "findByAgentUserId home_db ''agent-alice'' = Inr (Some alice_link)"
  by (simp add: findByAgentUserId_def run_stmt_def home_db_def alice_link_def)

text \<open>
  Claim C3, as stated, fails: the ownership check is made once per device, before the
  loop over the executions, so a device that fails it yields one \<open>deviceNotFound\<close>
  entry whatever the number of executions it is paired with. Here a device of another
  user is paired with two executions, and the response has one entry.
\<close>

theorem execute_one_entry_per_pair_counterexample:
  "length (requested_pairs [sensor_group]) = 2 \<and>
   fst (handleExecute prod_env online_tb home_db 0
          (request_of ''tok-alice'' ''action.devices.EXECUTE'' (CommandsPayload [sensor_group]))) =
     \<lparr> http_status = 200,
       body = Envelope (Some ''req-1'')
                (ExecutePayload [CommandError [''uuid-sensor''] ''deviceNotFound'']) \<rparr>"
proof -
  have "length (requested_pairs [sensor_group]) = 2"
    by (simp add: requested_pairs_def sensor_group_def)
  moreover have "execute_device online_tb home_db alice_link sensor_group ''uuid-sensor'' [] 0 =
      ([CommandError [''uuid-sensor''] ''deviceNotFound''], 0)"
    by (simp add: execute_device_def findByUuid_def run_stmt_def find_home_db)
       (simp add: home_db_def sensor_def alice_link_def)
  then have "fst (handleExecute prod_env online_tb home_db 0
          (request_of ''tok-alice'' ''action.devices.EXECUTE'' (CommandsPayload [sensor_group]))) =
     \<lparr> http_status = 200,
       body = Envelope (Some ''req-1'')
                (ExecutePayload [CommandError [''uuid-sensor''] ''deviceNotFound'']) \<rparr>"
    by (simp add: handleExecute_def alice_authenticated alice_linked try_catch_def)
       (simp add: request_of_def sensor_group_def)
  ultimately show ?thesis by simp
qed

text \<open>
  Claim C3, amended. For every EXECUTE batch in which no registry lookup and no RPC
  raises and every execution carries a \<open>params\<close> object, the response's commands list
  is, group by group and device by device in request order: for a device that passes the
  ownership check, one entry per execution of the group, carrying the device's
  identifier, SUCCESS with \<open>online\<close> and the echoed state when the command translates
  and \<open>functionNotSupported\<close> when it does not; for a device that fails the check,
  one \<open>deviceNotFound\<close> entry carrying its identifier, whatever the number of
  executions of the group.
\<close>

theorem handleExecute_entries:
  assumes auth: "extractAgentUserId env req = Some a"
    and linked: "findByAgentUserId db a = Inr (Some accountLink)"
    and batch: "inputs req = Some (i # others)" "payload i = CommandsPayload commands"
    and db_ok: "\<forall>deviceId. failing db (FindByUuid deviceId) = None"
    and rpc: "\<forall>s deviceId m ps t. fst (post_rpc tb s deviceId m ps t) = Inr ()"
    and ps: "\<forall>cg \<in> set commands. \<forall>ex \<in> set (cg_execution cg). params ex \<noteq> None"
  shows "fst (handleExecute env tb db s req) =
           \<lparr> http_status = 200,
             body = Envelope (requestId req)
                      (ExecutePayload (batch_entries db accountLink commands)) \<rparr>
       \<and> length (batch_entries db accountLink commands) =
           (\<Sum>cg\<leftarrow>commands. \<Sum>deviceId\<leftarrow>cg_devices cg.
              if owns db accountLink deviceId then length (cg_execution cg) else 1)"
proof -
  obtain s' where run:
    "execute_commands tb db accountLink commands [] s =
       ([] @ batch_entries db accountLink commands, s')"
    using execute_commands_contents [OF db_ok rpc ps] by blast
  with auth linked batch have "fst (handleExecute env tb db s req) =
           \<lparr> http_status = 200,
             body = Envelope (requestId req)
                      (ExecutePayload (batch_entries db accountLink commands)) \<rparr>"
    by (simp add: handleExecute_def try_catch_def)
  then show ?thesis by (simp add: length_batch_entries)
qed


theorem handleExecute_entries_witness:
  "fst (handleExecute prod_env online_tb home_db 0
          (request_of ''tok-alice'' ''action.devices.EXECUTE'' (CommandsPayload [mixed_group]))) =
     \<lparr> http_status = 200,
       body = Envelope (Some ''req-1'')
                (ExecutePayload
                   [CommandError [''uuid-sensor''] ''deviceNotFound'',
                    CommandSuccess [''uuid-fan'']
                      [(''online'', Json (JBool True)), (''on'', Json (JBool True))],
                    CommandSuccess [''uuid-fan'']
                      [(''online'', Json (JBool True)),
                       (''currentFanSpeedSetting'', Json (JStr ''speed_3''))]]) \<rparr>"
proof -
  have ps: "\<forall>cg \<in> set [mixed_group]. \<forall>ex \<in> set (cg_execution cg). params ex \<noteq> None"
    by (simp add: mixed_group_def on_command_def fan_command_def)
  have db_ok: "\<forall>deviceId. failing home_db (FindByUuid deviceId) = None"
    by (simp add: home_db_def)
  have rpc: "\<forall>s deviceId m ps t. fst (post_rpc online_tb s deviceId m ps t) = Inr ()"
    by (simp add: online_tb_def)
  have batch: "inputs (request_of ''tok-alice'' ''action.devices.EXECUTE'' (CommandsPayload [mixed_group])) =
      Some (\<lparr> intent = ''action.devices.EXECUTE'', payload = CommandsPayload [mixed_group] \<rparr> # [])"
    by (simp add: request_of_def)
  have rid: "requestId (request_of ''tok-alice'' ''action.devices.EXECUTE''
      (CommandsPayload [mixed_group])) = Some ''req-1''"
    by (simp add: request_of_def)
  have on: "pair_entry ceiling_fan ''uuid-fan'' on_command =
      CommandSuccess [''uuid-fan''] [(''online'', Json (JBool True)), (''on'', Json (JBool True))]"
    by (simp add: pair_entry_def on_command_def convertGoogleCommandToRpc_def read_param_def
        of_json_def)
  have fan: "pair_entry ceiling_fan ''uuid-fan'' (fan_command ''speed_3'') =
      CommandSuccess [''uuid-fan'']
        [(''online'', Json (JBool True)), (''currentFanSpeedSetting'', Json (JStr ''speed_3''))]"
    by (simp add: pair_entry_def fan_command_def convertGoogleCommandToRpc_def has_fan_capability
        read_param_def of_json_def)
  have owners: "owner_user_id sensor \<noteq> user_id alice_link"
    "owner_user_id ceiling_fan = user_id alice_link"
    by (simp_all add: sensor_def ceiling_fan_def alice_link_def)
  have entries: "batch_entries home_db alice_link [mixed_group] =
      [CommandError [''uuid-sensor''] ''deviceNotFound'',
       CommandSuccess [''uuid-fan''] [(''online'', Json (JBool True)), (''on'', Json (JBool True))],
       CommandSuccess [''uuid-fan'']
         [(''online'', Json (JBool True)), (''currentFanSpeedSetting'', Json (JStr ''speed_3''))]]"
    by (simp add: batch_entries_def device_entries_def mixed_group_def find_home_db owners on fan)
  from handleExecute_entries [OF alice_authenticated alice_linked batch _ db_ok rpc ps, of 0]
  have "fst (handleExecute prod_env online_tb home_db 0
          (request_of ''tok-alice'' ''action.devices.EXECUTE'' (CommandsPayload [mixed_group]))) =
     \<lparr> http_status = 200,
       body = Envelope (requestId (request_of ''tok-alice'' ''action.devices.EXECUTE''
                          (CommandsPayload [mixed_group])))
                (ExecutePayload (batch_entries home_db alice_link [mixed_group])) \<rparr>"
    by simp
  then show ?thesis
    unfolding rid entries .
qed

subsection \<open>Unsupported commands in a batch\<close>

lemma execute_device_appends:
  "\<exists>new. fst (execute_device tb db accountLink cg deviceId rs s) = rs @ new"
proof (cases "findByUuid db deviceId")
  case (Inl e)
  then show ?thesis by (simp add: execute_device_def)
next
  case (Inr found)
  show ?thesis
  proof (cases found)
    case None
    with Inr show ?thesis by (simp add: execute_device_def)
  next
    case (Some d)
    show ?thesis
    proof (cases "owner_user_id d = user_id accountLink")
      case False
      with Inr Some show ?thesis by (simp add: execute_device_def)
    next
      case True
      obtain r out s' where run:
        "execute_each tb d deviceId (cg_execution cg) rs s = (r, out, s')"
        by (cases "execute_each tb d deviceId (cg_execution cg) rs s")
      from execute_each_appends [of tb d deviceId "cg_execution cg" rs s] run
      obtain new where "out = rs @ new" by auto
      with Inr Some True run show ?thesis
        by (cases r) (simp_all add: execute_device_def)
    qed
  qed
qed

lemma execute_devices_appends:
  "\<exists>new. fst (execute_devices tb db accountLink cg ids rs s) = rs @ new"
proof (induction ids arbitrary: rs s)
  case Nil
  then show ?case by simp
next
  case (Cons deviceId ids)
  obtain out s1 where first: "execute_device tb db accountLink cg deviceId rs s = (out, s1)"
    by (cases "execute_device tb db accountLink cg deviceId rs s")
  from execute_device_appends [of tb db accountLink cg deviceId rs s] first
  obtain new1 where out: "out = rs @ new1" by auto
  from Cons.IH [of out s1] obtain new2 where
    "fst (execute_devices tb db accountLink cg ids out s1) = out @ new2" by blast
  with first out show ?case by simp
qed

lemma execute_commands_appends:
  "\<exists>new. fst (execute_commands tb db accountLink commands rs s) = rs @ new"
proof (induction commands arbitrary: rs s)
  case Nil
  then show ?case by simp
next
  case (Cons cg commands)
  obtain out s1 where first:
    "execute_devices tb db accountLink cg (cg_devices cg) rs s = (out, s1)"
    by (cases "execute_devices tb db accountLink cg (cg_devices cg) rs s")
  from execute_devices_appends [of tb db accountLink cg "cg_devices cg" rs s] first
  obtain new1 where out: "out = rs @ new1" by auto
  from Cons.IH [of out s1] obtain new2 where
    "fst (execute_commands tb db accountLink commands out s1) = out @ new2" by blast
  with first out show ?case by simp
qed

text \<open>An entry that the loop body pushes for a device, in whatever state, is in the batch's results.\<close>

lemma execute_devices_contains:
  assumes always: "\<And>rs s. entry \<in> set (fst (execute_device tb db accountLink cg deviceId rs s))"
    and requested: "deviceId \<in> set ids"
  shows "entry \<in> set (fst (execute_devices tb db accountLink cg ids rs s))"
  using requested
proof (induction ids arbitrary: rs s)
  case Nil
  then show ?case by simp
next
  case (Cons k ids)
  obtain out s1 where first: "execute_device tb db accountLink cg k rs s = (out, s1)"
    by (cases "execute_device tb db accountLink cg k rs s")
  show ?case
  proof (cases "k = deviceId")
    case True
    from always [of rs s] first True have "entry \<in> set out" by simp
    moreover obtain new where
      "fst (execute_devices tb db accountLink cg ids out s1) = out @ new"
      using execute_devices_appends [of tb db accountLink cg ids out s1] by (elim exE)
    ultimately show ?thesis using first by simp
  next
    case False
    with Cons.prems have "deviceId \<in> set ids" by simp
    from Cons.IH [OF this, of out s1] first show ?thesis by simp
  qed
qed

lemma execute_commands_contains:
  assumes always: "\<And>rs s. entry \<in> set (fst (execute_devices tb db accountLink cg (cg_devices cg) rs s))"
    and requested: "cg \<in> set commands"
  shows "entry \<in> set (fst (execute_commands tb db accountLink commands rs s))"
  using requested
proof (induction commands arbitrary: rs s)
  case Nil
  then show ?case by simp
next
  case (Cons c commands)
  obtain out s1 where first:
    "execute_devices tb db accountLink c (cg_devices c) rs s = (out, s1)"
    by (cases "execute_devices tb db accountLink c (cg_devices c) rs s")
  show ?case
  proof (cases "c = cg")
    case True
    from always [of rs s] first True have "entry \<in> set out" by simp
    moreover obtain new where
      "fst (execute_commands tb db accountLink commands out s1) = out @ new"
      using execute_commands_appends [of tb db accountLink commands out s1] by (elim exE)
    ultimately show ?thesis using first by simp
  next
    case False
    with Cons.prems have "cg \<in> set commands" by simp
    from Cons.IH [OF this, of out s1] first show ?thesis by simp
  qed
qed

lemma sendRpcCommand_device_ok:
  assumes "\<forall>s m ps t. fst (post_rpc tb s deviceId m ps t) = Inr ()"
  shows "\<exists>s'. sendRpcCommand tb s deviceId m ps = (Inr (), s')"
proof -
  obtain out s' where call: "post_rpc tb s deviceId m ps 5000 = (out, s')"
    by (cases "post_rpc tb s deviceId m ps 5000")
  with assms have "out = Inr ()" by (metis fst_conv)
  with call show ?thesis by (simp add: sendRpcCommand_def)
qed

text \<open>
  An execution that translates to the sentinel gets its entry wherever it stands in the
  group, when the executions before it raise nothing.
\<close>

lemma execute_each_unsupported:
  assumes rpc: "\<forall>s m ps t. fst (post_rpc tb s (thingsboard_device_id d) m ps t) = Inr ()"
    and sentinel: "convertGoogleCommandToRpc (command ex) (params ex) d = Inr None"
    and ps: "\<forall>ex' \<in> set before. params ex' \<noteq> None"
  shows "CommandError [deviceId] ''functionNotSupported'' \<in>
           set (fst (snd (execute_each tb d deviceId (before @ ex # after) rs s)))"
  using ps
proof (induction before arbitrary: rs s)
  case Nil
  obtain new where
    "fst (snd (execute_each tb d deviceId after
       (rs @ [CommandError [deviceId] ''functionNotSupported'']) s)) =
     (rs @ [CommandError [deviceId] ''functionNotSupported'']) @ new"
    using execute_each_appends [of tb d deviceId after
        "rs @ [CommandError [deviceId] ''functionNotSupported'']" s]
    by (elim exE)
  with sentinel show ?case by simp
next
  case (Cons b before)
  from Cons.prems obtain own where own: "params b = Some own" by auto
  obtain r where conv: "convertGoogleCommandToRpc (command b) (params b) d = Inr r"
    using convert_with_params own by metis
  from Cons.prems have rest: "\<forall>ex' \<in> set before. params ex' \<noteq> None" by simp
  show ?case
  proof (cases r)
    case None
    with conv Cons.IH [OF rest, of "rs @ [CommandError [deviceId] ''functionNotSupported'']" s]
    show ?thesis by simp
  next
    case (Some rpc_cmd)
    obtain s1 where call:
      "sendRpcCommand tb s (thingsboard_device_id d) (rpc_method rpc_cmd) (rpc_params rpc_cmd) =
         (Inr (), s1)"
      using sendRpcCommand_device_ok [OF rpc] by blast
    with conv Some
      Cons.IH [OF rest, of "rs @ [CommandSuccess [deviceId]
                 ((''online'', Json (JBool True)) # resultState rpc_cmd)]" s1]
    show ?thesis by simp
  qed
qed

lemma execute_device_unsupported:
  assumes found: "findByUuid db deviceId = Inr (Some d)"
    and owner: "owner_user_id d = user_id accountLink"
    and rpc: "\<forall>s m ps t. fst (post_rpc tb s (thingsboard_device_id d) m ps t) = Inr ()"
    and group: "cg_execution cg = before @ ex # after"
    and sentinel: "convertGoogleCommandToRpc (command ex) (params ex) d = Inr None"
    and ps: "\<forall>ex' \<in> set before. params ex' \<noteq> None"
  shows "CommandError [deviceId] ''functionNotSupported'' \<in>
           set (fst (execute_device tb db accountLink cg deviceId rs s))"
proof -
  obtain r out s' where run:
    "execute_each tb d deviceId (before @ ex # after) rs s = (r, out, s')"
    by (cases "execute_each tb d deviceId (before @ ex # after) rs s")
  from execute_each_unsupported [OF rpc sentinel ps, of deviceId after rs s] run
  have "CommandError [deviceId] ''functionNotSupported'' \<in> set out" by simp
  with found owner group run show ?thesis
    by (cases r) (simp_all add: execute_device_def)
qed

text \<open>
  Claim C5. For a device whose capability list has neither \<open>fan\<close> nor \<open>speed\<close> a
  fan-speed command translates to the unsupported sentinel (\<open>null\<close>), and so does every
  command other than OnOff, SetFanSpeed and BrightnessAbsolute. The dispatcher turns the
  sentinel into an error entry \<open>functionNotSupported\<close> for the device: in the loop
  body, and in the response of \<open>handleExecute\<close> for an execution of an owned device
  at any position of its group, the executions before it raising nothing.
\<close>

theorem unsupported_command_entry:
  "(''fan'' \<notin> set (capabilities_or_empty d) \<and> ''speed'' \<notin> set (capabilities_or_empty d) \<longrightarrow>
      convertGoogleCommandToRpc ''action.devices.commands.SetFanSpeed'' ps d = Inr None)
   \<and> (c \<noteq> ''action.devices.commands.OnOff'' \<and> c \<noteq> ''action.devices.commands.SetFanSpeed'' \<and>
      c \<noteq> ''action.devices.commands.BrightnessAbsolute'' \<longrightarrow>
      convertGoogleCommandToRpc c ps d = Inr None)
   \<and> (findByUuid db deviceId = Inr (Some d) \<and> owner_user_id d = user_id accountLink \<and>
      cg_execution cg = ex # rest \<and>
      convertGoogleCommandToRpc (command ex) (params ex) d = Inr None \<longrightarrow>
      (\<exists>more. fst (execute_device tb db accountLink cg deviceId results s) =
         results @ CommandError [deviceId] ''functionNotSupported'' # more))
   \<and> (extractAgentUserId env req = Some a \<and> findByAgentUserId db a = Inr (Some accountLink) \<and>
      inputs req = Some (i # others) \<and> payload i = CommandsPayload commands \<and>
      cg \<in> set commands \<and> deviceId \<in> set (cg_devices cg) \<and>
      findByUuid db deviceId = Inr (Some d) \<and> owner_user_id d = user_id accountLink \<and>
      cg_execution cg = before @ ex # after \<and>
      (\<forall>earlier \<in> set before. params earlier \<noteq> None) \<and>
      (\<forall>s0 m ps0 t. fst (post_rpc tb s0 (thingsboard_device_id d) m ps0 t) = Inr ()) \<and>
      convertGoogleCommandToRpc (command ex) (params ex) d = Inr None \<longrightarrow>
      (\<exists>commandResults.
         fst (handleExecute env tb db s req) =
           \<lparr> http_status = 200,
             body = Envelope (requestId req) (ExecutePayload commandResults) \<rparr> \<and>
         CommandError [deviceId] ''functionNotSupported'' \<in> set commandResults))"
proof (intro conjI impI)
  assume "''fan'' \<notin> set (capabilities_or_empty d) \<and> ''speed'' \<notin> set (capabilities_or_empty d)"
  then show "convertGoogleCommandToRpc ''action.devices.commands.SetFanSpeed'' ps d = Inr None"
    by (simp add: convertGoogleCommandToRpc_def array_includes_set)
next
  assume "c \<noteq> ''action.devices.commands.OnOff'' \<and> c \<noteq> ''action.devices.commands.SetFanSpeed'' \<and>
      c \<noteq> ''action.devices.commands.BrightnessAbsolute''"
  then show "convertGoogleCommandToRpc c ps d = Inr None"
    by (simp add: convertGoogleCommandToRpc_def)
next
  assume h: "findByUuid db deviceId = Inr (Some d) \<and> owner_user_id d = user_id accountLink \<and>
      cg_execution cg = ex # rest \<and>
      convertGoogleCommandToRpc (command ex) (params ex) d = Inr None"
  obtain more where more:
    "fst (snd (execute_each tb d deviceId rest
       (results @ [CommandError [deviceId] ''functionNotSupported'']) s)) =
     (results @ [CommandError [deviceId] ''functionNotSupported'']) @ more"
    using execute_each_appends [of tb d deviceId rest
        "results @ [CommandError [deviceId] ''functionNotSupported'']" s]
    by (elim exE)
  obtain r rs s' where run:
    "execute_each tb d deviceId rest
       (results @ [CommandError [deviceId] ''functionNotSupported'']) s = (r, rs, s')"
    by (cases "execute_each tb d deviceId rest
       (results @ [CommandError [deviceId] ''functionNotSupported'']) s")
  with more have rs: "rs = results @ CommandError [deviceId] ''functionNotSupported'' # more"
    by simp
  show "\<exists>more. fst (execute_device tb db accountLink cg deviceId results s) =
         results @ CommandError [deviceId] ''functionNotSupported'' # more"
    using h run rs by (cases r) (simp_all add: execute_device_def)
next
  assume h: "extractAgentUserId env req = Some a \<and> findByAgentUserId db a = Inr (Some accountLink) \<and>
      inputs req = Some (i # others) \<and> payload i = CommandsPayload commands \<and>
      cg \<in> set commands \<and> deviceId \<in> set (cg_devices cg) \<and>
      findByUuid db deviceId = Inr (Some d) \<and> owner_user_id d = user_id accountLink \<and>
      cg_execution cg = before @ ex # after \<and>
      (\<forall>earlier \<in> set before. params earlier \<noteq> None) \<and>
      (\<forall>s0 m ps0 t. fst (post_rpc tb s0 (thingsboard_device_id d) m ps0 t) = Inr ()) \<and>
      convertGoogleCommandToRpc (command ex) (params ex) d = Inr None"
  then have auth: "extractAgentUserId env req = Some a"
    and linked: "findByAgentUserId db a = Inr (Some accountLink)"
    and batch: "inputs req = Some (i # others)" "payload i = CommandsPayload commands"
    and group: "cg \<in> set commands" and requested: "deviceId \<in> set (cg_devices cg)"
    and found: "findByUuid db deviceId = Inr (Some d)"
    and owner: "owner_user_id d = user_id accountLink"
    and position: "cg_execution cg = before @ ex # after"
    and earlier: "\<forall>earlier \<in> set before. params earlier \<noteq> None"
    and rpc: "\<forall>s0 m ps0 t. fst (post_rpc tb s0 (thingsboard_device_id d) m ps0 t) = Inr ()"
    and sentinel: "convertGoogleCommandToRpc (command ex) (params ex) d = Inr None"
    by simp_all
  have one: "CommandError [deviceId] ''functionNotSupported'' \<in>
      set (fst (execute_device tb db accountLink cg deviceId rs0 s0))" for rs0 s0
    by (rule execute_device_unsupported [OF found owner rpc position sentinel earlier])
  have devices: "CommandError [deviceId] ''functionNotSupported'' \<in>
      set (fst (execute_devices tb db accountLink cg (cg_devices cg) rs0 s0))" for rs0 s0
    by (rule execute_devices_contains [OF one requested])
  have all: "CommandError [deviceId] ''functionNotSupported'' \<in>
      set (fst (execute_commands tb db accountLink commands [] s))"
    by (rule execute_commands_contains [OF devices group])
  obtain out s' where run: "execute_commands tb db accountLink commands [] s = (out, s')"
    by (cases "execute_commands tb db accountLink commands [] s")
  with auth linked batch have "fst (handleExecute env tb db s req) =
      \<lparr> http_status = 200, body = Envelope (requestId req) (ExecutePayload out) \<rparr>"
    by (simp add: handleExecute_def try_catch_def)
  moreover from all run have "CommandError [deviceId] ''functionNotSupported'' \<in> set out"
    by simp
  ultimately show "\<exists>commandResults.
         fst (handleExecute env tb db s req) =
           \<lparr> http_status = 200,
             body = Envelope (requestId req) (ExecutePayload commandResults) \<rparr> \<and>
         CommandError [deviceId] ''functionNotSupported'' \<in> set commandResults"
    by (intro exI conjI)
qed

theorem unsupported_command_entry_witness:
  "convertGoogleCommandToRpc ''action.devices.commands.SetFanSpeed''
     (params (fan_command ''speed_1'')) lamp = Inr None \<and>
   convertGoogleCommandToRpc ''action.devices.commands.Reboot''
     (params (fan_command ''speed_1'')) lamp = Inr None \<and>
   (\<exists>commandResults.
      fst (handleExecute prod_env online_tb home_db 0
             (request_of ''tok-alice'' ''action.devices.EXECUTE'' (CommandsPayload [lamp_group]))) =
        \<lparr> http_status = 200,
          body = Envelope (requestId (request_of ''tok-alice'' ''action.devices.EXECUTE''
                             (CommandsPayload [lamp_group])))
                   (ExecutePayload commandResults) \<rparr> \<and>
      CommandError [''uuid-lamp''] ''functionNotSupported'' \<in> set commandResults)"
proof -
  let ?req = "request_of ''tok-alice'' ''action.devices.EXECUTE'' (CommandsPayload [lamp_group])"
  let ?i = "\<lparr> intent = ''action.devices.EXECUTE'', payload = CommandsPayload [lamp_group] \<rparr>"
  have caps: "''fan'' \<notin> set (capabilities_or_empty lamp) \<and> ''speed'' \<notin> set (capabilities_or_empty lamp)"
    by (simp add: lamp_def capabilities_or_empty_def)
  have other: "''action.devices.commands.Reboot'' \<noteq> ''action.devices.commands.OnOff'' \<and>
      ''action.devices.commands.Reboot'' \<noteq> ''action.devices.commands.SetFanSpeed'' \<and>
      ''action.devices.commands.Reboot'' \<noteq> ''action.devices.commands.BrightnessAbsolute''"
    by simp
  have found: "findByUuid home_db ''uuid-lamp'' = Inr (Some lamp)"
    by (simp add: findByUuid_def run_stmt_def find_home_db) (simp add: home_db_def)
  have owner: "owner_user_id lamp = user_id alice_link"
    by (simp add: lamp_def alice_link_def)
  note t = unsupported_command_entry [where d = lamp and ps = "params (fan_command ''speed_1'')"
      and c = "''action.devices.commands.Reboot''" and db = home_db and deviceId = "''uuid-lamp''"
      and accountLink = alice_link and cg = lamp_group and ex = "fan_command ''speed_1''"
      and rest = "[]" and tb = online_tb and results = "[]" and s = 0 and env = prod_env
      and req = ?req and a = "''agent-alice''" and i = ?i and others = "[]"
      and commands = "[lamp_group]" and before = "[on_command]" and after = "[]"]
  from t [THEN conjunct1] caps
  have none: "convertGoogleCommandToRpc ''action.devices.commands.SetFanSpeed''
     (params (fan_command ''speed_1'')) lamp = Inr None"
    by (rule mp)
  from t [THEN conjunct2, THEN conjunct1] other
  have reboot: "convertGoogleCommandToRpc ''action.devices.commands.Reboot''
     (params (fan_command ''speed_1'')) lamp = Inr None"
    by (rule mp)
  from none have sentinel: "convertGoogleCommandToRpc (command (fan_command ''speed_1''))
     (params (fan_command ''speed_1'')) lamp = Inr None"
    by (simp add: fan_command_def)
  have hyp: "extractAgentUserId prod_env ?req = Some ''agent-alice'' \<and>
      findByAgentUserId home_db ''agent-alice'' = Inr (Some alice_link) \<and>
      inputs ?req = Some (?i # []) \<and> payload ?i = CommandsPayload [lamp_group] \<and>
      lamp_group \<in> set [lamp_group] \<and> ''uuid-lamp'' \<in> set (cg_devices lamp_group) \<and>
      findByUuid home_db ''uuid-lamp'' = Inr (Some lamp) \<and>
      owner_user_id lamp = user_id alice_link \<and>
      cg_execution lamp_group = [on_command] @ fan_command ''speed_1'' # [] \<and>
      (\<forall>earlier \<in> set [on_command]. params earlier \<noteq> None) \<and>
      (\<forall>s0 m ps0 t. fst (post_rpc online_tb s0 (thingsboard_device_id lamp) m ps0 t) = Inr ()) \<and>
      convertGoogleCommandToRpc (command (fan_command ''speed_1''))
        (params (fan_command ''speed_1'')) lamp = Inr None"
    using alice_authenticated [of "''action.devices.EXECUTE''" "CommandsPayload [lamp_group]"]
      alice_linked found owner sentinel
    by (simp add: request_of_def lamp_group_def on_command_def online_tb_def)
  from t [THEN conjunct2, THEN conjunct2, THEN conjunct2] hyp
  have entry: "\<exists>commandResults.
      fst (handleExecute prod_env online_tb home_db 0 ?req) =
        \<lparr> http_status = 200,
          body = Envelope (requestId ?req) (ExecutePayload commandResults) \<rparr> \<and>
      CommandError [''uuid-lamp''] ''functionNotSupported'' \<in> set commandResults"
    by (rule mp)
  from none reboot entry show ?thesis by (intro conjI)
qed


section \<open>Properties of QUERY\<close>

lemma map_of_set_property:
  "map_of (set_property own key v) =
     (if key = ''__proto__'' then map_of own else (map_of own)(key \<mapsto> v))"
  by (simp add: set_property_def update_conv')

lemma keys_set_property:
  "fst ` set (set_property own key v) =
     (if key = ''__proto__'' then fst ` set own else insert key (fst ` set own))"
  by (simp add: set_property_def dom_update)

lemma distinct_set_property:
  "distinct (map fst own) \<Longrightarrow> distinct (map fst (set_property own key v))"
  by (simp add: set_property_def distinct_update)

lemma query_devices_keys:
  "fst ` set (fst (query_devices tb db accountLink ids deviceStates s)) =
     fst ` set deviceStates \<union> (set ids - {''__proto__''})"
proof (induction ids arbitrary: deviceStates s)
  case Nil
  then show ?case by simp
next
  case (Cons deviceId ids)
  obtain entry s' where step: "query_device tb db accountLink deviceId s = (entry, s')"
    by (cases "query_device tb db accountLink deviceId s")
  show ?case
    using Cons.IH [of "set_property deviceStates deviceId entry" s'] step
    by (auto simp add: keys_set_property)
qed

lemma query_devices_distinct:
  "distinct (map fst deviceStates) \<Longrightarrow>
   distinct (map fst (fst (query_devices tb db accountLink ids deviceStates s)))"
proof (induction ids arbitrary: deviceStates s)
  case Nil
  then show ?case by simp
next
  case (Cons deviceId ids)
  obtain entry s' where step: "query_device tb db accountLink deviceId s = (entry, s')"
    by (cases "query_device tb db accountLink deviceId s")
  show ?case
    using Cons.IH [of "set_property deviceStates deviceId entry" s'] Cons.prems step
    by (simp add: distinct_set_property)
qed

text \<open>An entry that every run of the loop body gives a device is its entry in the result.\<close>

lemma query_devices_entry:
  assumes always: "\<And>s. P (fst (query_device tb db accountLink k s))"
    and key: "k \<noteq> ''__proto__''"
    and start: "k \<in> set ids \<or> (\<exists>entry. map_of deviceStates k = Some entry \<and> P entry)"
  shows "\<exists>entry. map_of (fst (query_devices tb db accountLink ids deviceStates s)) k = Some entry \<and>
           P entry"
  using start
proof (induction ids arbitrary: deviceStates s)
  case Nil
  then show ?case by simp
next
  case (Cons deviceId ids)
  obtain entry s' where step: "query_device tb db accountLink deviceId s = (entry, s')"
    by (cases "query_device tb db accountLink deviceId s")
  have "k \<in> set ids \<or>
        (\<exists>e. map_of (set_property deviceStates deviceId entry) k = Some e \<and> P e)"
  proof (cases "deviceId = k")
    case True
    from always [of s] step True have "P entry" by simp
    with True key show ?thesis by (simp add: map_of_set_property)
  next
    case False
    with Cons.prems show ?thesis by (auto simp add: map_of_set_property)
  qed
  from Cons.IH [OF this, of s'] step show ?case by simp
qed

lemma query_device_not_found:
  assumes "findByUuid db k = Inr None \<or>
           (\<exists>d. findByUuid db k = Inr (Some d) \<and> owner_user_id d \<noteq> user_id accountLink)"
  shows "fst (query_device tb db accountLink k s) = QueryError ''deviceNotFound''"
  using assms by (auto simp add: query_device_def)

lemma query_device_owned:
  assumes found: "findByUuid db deviceId = Inr (Some d)"
    and owner: "owner_user_id d = user_id accountLink"
  shows "fst (query_device tb db accountLink deviceId s) =
           QuerySuccess (is_online d = 1)
             (convertToGoogleState d
                (fst (getLatestTelemetry tb s (thingsboard_device_id d) telemetry_keys)) ())"
proof -
  obtain tele s1 where tele:
    "getLatestTelemetry tb s (thingsboard_device_id d) telemetry_keys = (tele, s1)"
    by (cases "getLatestTelemetry tb s (thingsboard_device_id d) telemetry_keys")
  obtain attrs s2 where attrs:
    "getDeviceAttributes tb s1 (thingsboard_device_id d) ''SERVER_SCOPE'' = (attrs, s2)"
    by (cases "getDeviceAttributes tb s1 (thingsboard_device_id d) ''SERVER_SCOPE''")
  have same: "convertToGoogleState d tele attrs = convertToGoogleState d tele ()"
    by (simp add: convertToGoogleState_def)
  from tele have tele': "getLatestTelemetry tb s (thingsboard_device_id d)
      [''device1_state'', ''device2_state'', ''device3_state'', ''device4_state'', ''fan_speed''] =
      (tele, s1)"
    by (simp add: telemetry_keys_def)
  have "query_device tb db accountLink deviceId s =
          (QuerySuccess (is_online d = 1) (convertToGoogleState d tele attrs), s2)"
    unfolding query_device_def by (simp add: found owner tele' attrs)
  with same tele show ?thesis by simp
qed

lemma getLatestTelemetry_failure:
  "fst (fetch_telemetry tb s deviceId keys) = Inl e \<Longrightarrow>
   fst (getLatestTelemetry tb s deviceId keys) = None"
  by (cases "fetch_telemetry tb s deviceId keys") (simp add: getLatestTelemetry_def)

lemma query_device_not_found_state:
  assumes "findByUuid db k = Inr None \<or>
           (\<exists>d. findByUuid db k = Inr (Some d) \<and> owner_user_id d \<noteq> user_id accountLink)"
  shows "query_device tb db accountLink k s = (QueryError ''deviceNotFound'', s)"
  using assms by (auto simp add: query_device_def)

text \<open>
  Dropping an absent or foreign device from a QUERY batch changes neither the entries of
  the other devices nor the requests made to the gateway.
\<close>

lemma query_devices_independent:
  assumes absent: "findByUuid db k = Inr None \<or>
           (\<exists>d. findByUuid db k = Inr (Some d) \<and> owner_user_id d \<noteq> user_id accountLink)"
    and agree: "\<forall>j. j \<noteq> k \<longrightarrow> map_of states j = map_of states' j"
  shows "snd (query_devices tb db accountLink ids states s) =
           snd (query_devices tb db accountLink (removeAll k ids) states' s) \<and>
         (\<forall>j. j \<noteq> k \<longrightarrow>
            map_of (fst (query_devices tb db accountLink ids states s)) j =
            map_of (fst (query_devices tb db accountLink (removeAll k ids) states' s)) j)"
  using agree
proof (induction ids arbitrary: states states' s)
  case Nil
  then show ?case by simp
next
  case (Cons deviceId ids)
  show ?case
  proof (cases "deviceId = k")
    case True
    have "\<forall>j. j \<noteq> k \<longrightarrow>
        map_of (set_property states k (QueryError ''deviceNotFound'')) j = map_of states' j"
      using Cons.prems by (simp add: map_of_set_property)
    from Cons.IH [OF this, of s] True show ?thesis
      by (simp add: query_device_not_found_state [OF absent])
  next
    case False
    obtain entry s' where step: "query_device tb db accountLink deviceId s = (entry, s')"
      by (cases "query_device tb db accountLink deviceId s")
    have "\<forall>j. j \<noteq> k \<longrightarrow>
        map_of (set_property states deviceId entry) j =
        map_of (set_property states' deviceId entry) j"
      using Cons.prems by (simp add: map_of_set_property)
    from Cons.IH [OF this, of s'] False step show ?thesis
      by simp
  qed
qed

text \<open>
  A requested device that is absent from the registry or owned by another user has the
  entry \<open>deviceNotFound\<close> in the response, the response has one entry per requested
  identifier, and the other identifiers have their own entries, provided the identifier
  is not \<open>__proto__\<close>.
\<close>

lemma query_not_found_entry:
  assumes absent: "findByUuid db k = Inr None \<or>
           (\<exists>d. findByUuid db k = Inr (Some d) \<and> owner_user_id d \<noteq> user_id accountLink)"
    and key: "k \<noteq> ''__proto__''" and requested: "k \<in> set ids"
  shows "map_of (fst (query_devices tb db accountLink ids [] s)) k = Some (QueryError ''deviceNotFound'')"
    and "distinct (map fst (fst (query_devices tb db accountLink ids [] s)))"
    and "fst ` set (fst (query_devices tb db accountLink ids [] s)) = set ids - {''__proto__''}"
proof -
  have "\<exists>entry. map_of (fst (query_devices tb db accountLink ids [] s)) k = Some entry \<and>
           entry = QueryError ''deviceNotFound''"
    by (rule query_devices_entry [where P = "\<lambda>e. e = QueryError ''deviceNotFound''",
          OF query_device_not_found [OF absent] key disjI1 [OF requested]])
  then show "map_of (fst (query_devices tb db accountLink ids [] s)) k = Some (QueryError ''deviceNotFound'')"
    by simp
  show "distinct (map fst (fst (query_devices tb db accountLink ids [] s)))"
    by (simp add: query_devices_distinct)
  show "fst ` set (fst (query_devices tb db accountLink ids [] s)) = set ids - {''__proto__''}"
    by (simp add: query_devices_keys)
qed

text \<open>
  Claim C6. The response is built by assignments \<open>deviceStates[deviceId] = ...\<close> to
  an object literal. For the identifier \<open>__proto__\<close>, which no registry row has, the
  assignment sets the prototype of \<open>deviceStates\<close> and creates no own property: the
  serialised response has no entry for that device, where the claim says it has exactly
  one, with \<open>deviceNotFound\<close>. For every other identifier the claim holds (lemmas
  \<open>query_not_found_entry\<close> and \<open>query_devices_independent\<close>).
\<close>

theorem query_proto_id_has_no_entry:
  "findByUuid home_db ''__proto__'' = Inr None \<and>
   fst (handleQuery prod_env online_tb home_db 0
          (request_of ''tok-alice'' ''action.devices.QUERY'' (DevicesPayload [''__proto__'']))) =
     \<lparr> http_status = 200, body = Envelope (Some ''req-1'') (QueryPayload []) \<rparr>"
proof -
  have absent: "findByUuid home_db ''__proto__'' = Inr None"
    by (simp add: findByUuid_def run_stmt_def find_home_db) (simp add: home_db_def)
  then have "query_device online_tb home_db alice_link ''__proto__'' 0 =
      (QueryError ''deviceNotFound'', 0)"
    by (simp add: query_device_def)
  then have "fst (handleQuery prod_env online_tb home_db 0
          (request_of ''tok-alice'' ''action.devices.QUERY'' (DevicesPayload [''__proto__'']))) =
     \<lparr> http_status = 200, body = Envelope (Some ''req-1'') (QueryPayload []) \<rparr>"
    by (simp add: handleQuery_def alice_authenticated alice_linked try_catch_def)
       (simp add: request_of_def set_property_def)
  with absent show ?thesis by (intro conjI)
qed

text \<open>
  Claim C2, as stated, fails: \<open>getLatestTelemetry\<close> and \<open>getDeviceAttributes\<close>
  catch every failure of the gateway and return \<open>null\<close>, so nothing is raised inside
  the loop body and \<open>convertToGoogleState\<close>, which guards on \<open>if (telemetry)\<close>,
  gives the state \<open>on = false\<close>. With the gateway unreachable, an owned device gets a
  SUCCESS entry, not \<open>hardError\<close>.
\<close>

theorem query_gateway_failure_counterexample:
  "findByUuid home_db ''uuid-lamp'' = Inr (Some lamp) \<and>
   owner_user_id lamp = user_id alice_link \<and>
   fst (fetch_telemetry offline_tb 0 (thingsboard_device_id lamp) telemetry_keys) =
     Inl ''connect ETIMEDOUT'' \<and>
   fst (handleQuery prod_env offline_tb home_db 0
          (request_of ''tok-alice'' ''action.devices.QUERY'' (DevicesPayload [''uuid-lamp'']))) =
     \<lparr> http_status = 200,
       body = Envelope (Some ''req-1'')
                (QueryPayload [(''uuid-lamp'',
                   QuerySuccess True \<lparr> gs_on = False, currentFanSpeedSetting = None \<rparr>)]) \<rparr>"
proof -
  have found: "findByUuid home_db ''uuid-lamp'' = Inr (Some lamp)"
    by (simp add: findByUuid_def run_stmt_def find_home_db) (simp add: home_db_def)
  have owner: "owner_user_id lamp = user_id alice_link"
    by (simp add: lamp_def alice_link_def)
  have down: "fst (fetch_telemetry offline_tb 0 (thingsboard_device_id lamp) telemetry_keys) =
     Inl ''connect ETIMEDOUT''"
    by (simp add: offline_tb_def)
  have "query_device offline_tb home_db alice_link ''uuid-lamp'' 0 =
      (QuerySuccess True \<lparr> gs_on = False, currentFanSpeedSetting = None \<rparr>, 2)"
    using found owner
    by (simp add: query_device_def getLatestTelemetry_def getDeviceAttributes_def offline_tb_def
        convertToGoogleState_def)
       (simp add: lamp_def)
  then have "fst (handleQuery prod_env offline_tb home_db 0
          (request_of ''tok-alice'' ''action.devices.QUERY'' (DevicesPayload [''uuid-lamp'']))) =
     \<lparr> http_status = 200,
       body = Envelope (Some ''req-1'')
                (QueryPayload [(''uuid-lamp'',
                   QuerySuccess True \<lparr> gs_on = False, currentFanSpeedSetting = None \<rparr>)]) \<rparr>"
    by (simp add: handleQuery_def alice_authenticated alice_linked try_catch_def)
       (simp add: request_of_def set_property_def)
  with found owner down show ?thesis by (intro conjI)
qed

lemma query_device_hardError:
  assumes "fst (query_device tb db accountLink k s) = QueryError ''hardError''"
  shows "\<exists>e. findByUuid db k = Inl e"
proof (cases "findByUuid db k")
  case (Inl e)
  then show ?thesis by simp
next
  case (Inr found)
  show ?thesis
  proof (cases found)
    case None
    with Inr assms show ?thesis by (simp add: query_device_def)
  next
    case (Some d)
    show ?thesis
    proof (cases "owner_user_id d = user_id accountLink")
      case True
      from query_device_owned [OF _ True, of db k tb s] Inr Some assms show ?thesis by simp
    next
      case False
      with Inr Some assms show ?thesis by (simp add: query_device_def)
    qed
  qed
qed

text \<open>An entry \<open>hardError\<close> in the result comes from a device whose processing raised.\<close>

lemma query_devices_hardError:
  assumes "map_of (fst (query_devices tb db accountLink ids states s)) k =
             Some (QueryError ''hardError'')"
  shows "(\<exists>e. findByUuid db k = Inl e) \<or> map_of states k = Some (QueryError ''hardError'')"
  using assms
proof (induction ids arbitrary: states s)
  case Nil
  then show ?case by simp
next
  case (Cons deviceId ids)
  obtain entry s' where step: "query_device tb db accountLink deviceId s = (entry, s')"
    by (cases "query_device tb db accountLink deviceId s")
  with Cons.prems have
    "map_of (fst (query_devices tb db accountLink ids (set_property states deviceId entry) s')) k =
       Some (QueryError ''hardError'')"
    by simp
  from Cons.IH [OF this] consider
      (raised) "\<exists>e. findByUuid db k = Inl e"
    | (stored) "map_of (set_property states deviceId entry) k = Some (QueryError ''hardError'')"
    by blast
  then show ?case
  proof cases
    case raised
    then show ?thesis by (rule disjI1)
  next
    case stored
    show ?thesis
    proof (cases "deviceId = k \<and> deviceId \<noteq> ''__proto__''")
      case True
      with stored have "entry = QueryError ''hardError''"
        by (auto simp add: map_of_set_property)
      with step True have "fst (query_device tb db accountLink k s) = QueryError ''hardError''"
        by simp
      then have "\<exists>e. findByUuid db k = Inl e" by (rule query_device_hardError)
      then show ?thesis by (rule disjI1)
    next
      case False
      with stored have "map_of states k = Some (QueryError ''hardError'')"
        by (auto simp add: map_of_set_property split: if_splits)
      then show ?thesis by (rule disjI2)
    qed
  qed
qed

text \<open>
  Claim C2, amended. In \<open>handleQuery\<close>, a failing gateway call raises nothing in the
  handler. In the response of an authenticated QUERY, every requested device that is
  found and owned by the resolved user (its identifier not being \<open>__proto__\<close>) has an
  entry with status SUCCESS whatever the two gateway calls do, with \<open>on = false\<close> and
  no fan-speed label when fetching its telemetry fails; an entry with error code
  \<open>hardError\<close> is there only for a device whose registry lookup raised; and every
  requested identifier other than \<open>__proto__\<close> has exactly one entry, so the
  remaining devices of the batch are still processed.
\<close>

theorem handleQuery_gateway_failure_absorbed:
  assumes auth: "extractAgentUserId env req = Some a"
    and linked: "findByAgentUserId db a = Inr (Some accountLink)"
    and batch: "inputs req = Some (i # others)" "payload i = DevicesPayload requestedDevices"
  shows "\<exists>deviceStates.
           fst (handleQuery env tb db s req) =
             \<lparr> http_status = 200,
               body = Envelope (requestId req) (QueryPayload deviceStates) \<rparr>
         \<and> fst ` set deviceStates = set requestedDevices - {''__proto__''}
         \<and> distinct (map fst deviceStates)
         \<and> (deviceId \<in> set requestedDevices \<and> deviceId \<noteq> ''__proto__'' \<and>
            findByUuid db deviceId = Inr (Some d) \<and> owner_user_id d = user_id accountLink \<longrightarrow>
              (\<exists>st. map_of deviceStates deviceId = Some (QuerySuccess (is_online d = 1) st)))
         \<and> (deviceId \<in> set requestedDevices \<and> deviceId \<noteq> ''__proto__'' \<and>
            findByUuid db deviceId = Inr (Some d) \<and> owner_user_id d = user_id accountLink \<and>
            (\<forall>s0. \<exists>e. fst (fetch_telemetry tb s0 (thingsboard_device_id d) telemetry_keys) = Inl e) \<longrightarrow>
              map_of deviceStates deviceId =
                Some (QuerySuccess (is_online d = 1)
                        \<lparr> gs_on = False, currentFanSpeedSetting = None \<rparr>))
         \<and> (map_of deviceStates k = Some (QueryError ''hardError'') \<longrightarrow>
              (\<exists>e. findByUuid db k = Inl e))
         \<and> (findByUuid db deviceId = Inr (Some d) \<and> owner_user_id d = user_id accountLink \<and>
            fst (fetch_telemetry tb s1 (thingsboard_device_id d) telemetry_keys) = Inl e1 \<longrightarrow>
              fst (query_device tb db accountLink deviceId s1) =
                QuerySuccess (is_online d = 1)
                  \<lparr> gs_on = False, currentFanSpeedSetting = None \<rparr>)"
proof -
  let ?states = "fst (query_devices tb db accountLink requestedDevices [] s)"
  obtain out s' where run: "query_devices tb db accountLink requestedDevices [] s = (out, s')"
    by (cases "query_devices tb db accountLink requestedDevices [] s")
  then have out: "?states = out" by simp
  from auth linked batch run have response: "fst (handleQuery env tb db s req) =
      \<lparr> http_status = 200, body = Envelope (requestId req) (QueryPayload ?states) \<rparr>"
    by (simp add: handleQuery_def try_catch_def)
  have keys: "fst ` set ?states = set requestedDevices - {''__proto__''}"
    by (simp add: query_devices_keys)
  have once: "distinct (map fst ?states)"
    by (simp add: query_devices_distinct)
  have success: "deviceId \<in> set requestedDevices \<and> deviceId \<noteq> ''__proto__'' \<and>
      findByUuid db deviceId = Inr (Some d) \<and> owner_user_id d = user_id accountLink \<longrightarrow>
        (\<exists>st. map_of ?states deviceId = Some (QuerySuccess (is_online d = 1) st))"
  proof
    assume h: "deviceId \<in> set requestedDevices \<and> deviceId \<noteq> ''__proto__'' \<and>
      findByUuid db deviceId = Inr (Some d) \<and> owner_user_id d = user_id accountLink"
    then have requested: "deviceId \<in> set requestedDevices" and key: "deviceId \<noteq> ''__proto__''"
      and found: "findByUuid db deviceId = Inr (Some d)"
      and owner: "owner_user_id d = user_id accountLink"
      by simp_all
    have always: "\<exists>st. fst (query_device tb db accountLink deviceId s0) =
                     QuerySuccess (is_online d = 1) st" for s0
      by (rule exI, rule query_device_owned [OF found owner])
    have "\<exists>entry. map_of ?states deviceId = Some entry \<and>
            (\<exists>st. entry = QuerySuccess (is_online d = 1) st)"
      by (rule query_devices_entry [where P = "\<lambda>entry. \<exists>st. entry = QuerySuccess (is_online d = 1) st",
            OF always key disjI1 [OF requested]])
    then show "\<exists>st. map_of ?states deviceId = Some (QuerySuccess (is_online d = 1) st)"
      by (elim exE conjE) simp
  qed
  have off: "deviceId \<in> set requestedDevices \<and> deviceId \<noteq> ''__proto__'' \<and>
      findByUuid db deviceId = Inr (Some d) \<and> owner_user_id d = user_id accountLink \<and>
      (\<forall>s0. \<exists>e. fst (fetch_telemetry tb s0 (thingsboard_device_id d) telemetry_keys) = Inl e) \<longrightarrow>
        map_of ?states deviceId =
          Some (QuerySuccess (is_online d = 1) \<lparr> gs_on = False, currentFanSpeedSetting = None \<rparr>)"
  proof
    assume h: "deviceId \<in> set requestedDevices \<and> deviceId \<noteq> ''__proto__'' \<and>
      findByUuid db deviceId = Inr (Some d) \<and> owner_user_id d = user_id accountLink \<and>
      (\<forall>s0. \<exists>e. fst (fetch_telemetry tb s0 (thingsboard_device_id d) telemetry_keys) = Inl e)"
    then have requested: "deviceId \<in> set requestedDevices" and key: "deviceId \<noteq> ''__proto__''"
      and found: "findByUuid db deviceId = Inr (Some d)"
      and owner: "owner_user_id d = user_id accountLink"
      and down: "\<forall>s0. \<exists>e. fst (fetch_telemetry tb s0 (thingsboard_device_id d) telemetry_keys) = Inl e"
      by simp_all
    have always: "fst (query_device tb db accountLink deviceId s0) =
        QuerySuccess (is_online d = 1) \<lparr> gs_on = False, currentFanSpeedSetting = None \<rparr>" for s0
    proof -
      from down obtain e where
        "fst (fetch_telemetry tb s0 (thingsboard_device_id d) telemetry_keys) = Inl e"
        by blast
      then have "fst (getLatestTelemetry tb s0 (thingsboard_device_id d) telemetry_keys) = None"
        by (rule getLatestTelemetry_failure)
      with query_device_owned [OF found owner, of tb s0] show ?thesis
        by (simp add: convertToGoogleState_def)
    qed
    have "\<exists>entry. map_of ?states deviceId = Some entry \<and>
            entry = QuerySuccess (is_online d = 1) \<lparr> gs_on = False, currentFanSpeedSetting = None \<rparr>"
      by (rule query_devices_entry [where P = "\<lambda>entry. entry = QuerySuccess (is_online d = 1)
              \<lparr> gs_on = False, currentFanSpeedSetting = None \<rparr>",
            OF always key disjI1 [OF requested]])
    then show "map_of ?states deviceId =
          Some (QuerySuccess (is_online d = 1) \<lparr> gs_on = False, currentFanSpeedSetting = None \<rparr>)"
      by (elim exE conjE) simp
  qed
  have raised: "map_of ?states k = Some (QueryError ''hardError'') \<longrightarrow>
      (\<exists>e. findByUuid db k = Inl e)"
  proof
    assume "map_of ?states k = Some (QueryError ''hardError'')"
    from query_devices_hardError [OF this] show "\<exists>e. findByUuid db k = Inl e" by simp
  qed
  have step: "findByUuid db deviceId = Inr (Some d) \<and> owner_user_id d = user_id accountLink \<and>
      fst (fetch_telemetry tb s1 (thingsboard_device_id d) telemetry_keys) = Inl e1 \<longrightarrow>
        fst (query_device tb db accountLink deviceId s1) =
          QuerySuccess (is_online d = 1) \<lparr> gs_on = False, currentFanSpeedSetting = None \<rparr>"
  proof
    assume h: "findByUuid db deviceId = Inr (Some d) \<and> owner_user_id d = user_id accountLink \<and>
      fst (fetch_telemetry tb s1 (thingsboard_device_id d) telemetry_keys) = Inl e1"
    then have found: "findByUuid db deviceId = Inr (Some d)"
      and owner: "owner_user_id d = user_id accountLink"
      and down: "fst (fetch_telemetry tb s1 (thingsboard_device_id d) telemetry_keys) = Inl e1"
      by simp_all
    from down have "fst (getLatestTelemetry tb s1 (thingsboard_device_id d) telemetry_keys) = None"
      by (rule getLatestTelemetry_failure)
    with query_device_owned [OF found owner, of tb s1]
    show "fst (query_device tb db accountLink deviceId s1) =
          QuerySuccess (is_online d = 1) \<lparr> gs_on = False, currentFanSpeedSetting = None \<rparr>"
      by (simp add: convertToGoogleState_def)
  qed
  from response keys once success off raised step show ?thesis
    by (intro exI [of _ ?states] conjI)
qed

theorem handleQuery_gateway_failure_absorbed_witness:
  "\<exists>deviceStates.
     fst (handleQuery prod_env offline_tb home_db 0
            (request_of ''tok-alice'' ''action.devices.QUERY''
               (DevicesPayload [''uuid-lamp'', ''uuid-fan'']))) =
       \<lparr> http_status = 200,
         body = Envelope (requestId (request_of ''tok-alice'' ''action.devices.QUERY''
                            (DevicesPayload [''uuid-lamp'', ''uuid-fan''])))
                  (QueryPayload deviceStates) \<rparr>
     \<and> map_of deviceStates ''uuid-lamp'' =
         Some (QuerySuccess (is_online lamp = 1) \<lparr> gs_on = False, currentFanSpeedSetting = None \<rparr>)"
proof -
  let ?req = "request_of ''tok-alice'' ''action.devices.QUERY''
               (DevicesPayload [''uuid-lamp'', ''uuid-fan''])"
  let ?i = "\<lparr> intent = ''action.devices.QUERY'',
              payload = DevicesPayload [''uuid-lamp'', ''uuid-fan''] \<rparr>"
  have batch: "inputs ?req = Some (?i # [])" "payload ?i = DevicesPayload [''uuid-lamp'', ''uuid-fan'']"
    by (simp_all add: request_of_def)
  have found: "findByUuid home_db ''uuid-lamp'' = Inr (Some lamp)"
    by (simp add: findByUuid_def run_stmt_def find_home_db) (simp add: home_db_def)
  have hyp: "''uuid-lamp'' \<in> set [''uuid-lamp'', ''uuid-fan''] \<and> ''uuid-lamp'' \<noteq> ''__proto__'' \<and>
      findByUuid home_db ''uuid-lamp'' = Inr (Some lamp) \<and>
      owner_user_id lamp = user_id alice_link \<and>
      (\<forall>s0. \<exists>e. fst (fetch_telemetry offline_tb s0 (thingsboard_device_id lamp) telemetry_keys) =
         Inl e)"
    using found by (simp add: lamp_def alice_link_def offline_tb_def)
  from handleQuery_gateway_failure_absorbed [OF alice_authenticated alice_linked batch,
      where tb = offline_tb and s = 0 and deviceId = "''uuid-lamp''" and d = lamp
        and k = "''uuid-lamp''" and ?s1.0 = 0 and ?e1.0 = "''connect ETIMEDOUT''"]
  show ?thesis
  proof (elim exE conjE)
    fix deviceStates
    assume r: "fst (handleQuery prod_env offline_tb home_db 0 ?req) =
          \<lparr> http_status = 200, body = Envelope (requestId ?req) (QueryPayload deviceStates) \<rparr>"
      and off: "''uuid-lamp'' \<in> set [''uuid-lamp'', ''uuid-fan''] \<and> ''uuid-lamp'' \<noteq> ''__proto__'' \<and>
        findByUuid home_db ''uuid-lamp'' = Inr (Some lamp) \<and>
        owner_user_id lamp = user_id alice_link \<and>
        (\<forall>s0. \<exists>e. fst (fetch_telemetry offline_tb s0 (thingsboard_device_id lamp) telemetry_keys) =
           Inl e) \<longrightarrow>
          map_of deviceStates ''uuid-lamp'' =
            Some (QuerySuccess (is_online lamp = 1) \<lparr> gs_on = False, currentFanSpeedSetting = None \<rparr>)"
    from off hyp have "map_of deviceStates ''uuid-lamp'' =
            Some (QuerySuccess (is_online lamp = 1) \<lparr> gs_on = False, currentFanSpeedSetting = None \<rparr>)"
      by (rule mp)
    with r show ?thesis by (intro exI conjI)
  qed
qed


section \<open>Properties of DISCONNECT and SYNC\<close>






text \<open>
  Claim C9. For a SYNC request whose token resolves to a subject with an active link,
  when the registry statements do not raise, the response lists one descriptor per row,
  carrying the row's identifier, for exactly the active devices owned by the link's user,
  in ascending order of provisioning time; when the table's provisioning times ascend
  with insertion, that is the insertion order.
\<close>

theorem sync_lists_active_owned_devices:
  assumes auth: "extractAgentUserId env req = Some a"
    and linked: "findByAgentUserId db a = Inr (Some accountLink)"
    and query_ok: "failing db (FindAllForSync (user_id accountLink)) = None"
    and update_ok: "failing db (UpdateLastSync a) = None"
  shows "\<exists>rows.
           fst (handleSync env db req) =
             \<lparr> http_status = 200,
               body = Envelope (requestId req) (SyncPayload a (map convertToGoogleDevice rows)) \<rparr>
           \<and> map gd_id (map convertToGoogleDevice rows) = map device_uuid rows
           \<and> mset rows = mset (filter (active_owned accountLink) (devices_table db))
           \<and> sorted (map provisioned_at rows)
           \<and> (sorted (map provisioned_at (devices_table db)) \<longrightarrow>
                rows = filter (active_owned accountLink) (devices_table db))"
proof -
  let ?rows = "sort_key provisioned_at (filter (active_owned accountLink) (devices_table db))"
  have same: "(\<lambda>d. owner_user_id d = user_id accountLink \<and> is_active d = 1) =
              active_owned accountLink"
    by (simp add: active_owned_def fun_eq_iff)
  have response: "fst (handleSync env db req) =
      \<lparr> http_status = 200,
        body = Envelope (requestId req) (SyncPayload a (map convertToGoogleDevice ?rows)) \<rparr>"
    using auth linked query_ok update_ok
    by (simp add: handleSync_def try_catch_def findAllForSync_def updateLastSync_def
        run_stmt_def same)
  have "gd_id (convertToGoogleDevice d) = device_uuid d" for d
    by (simp add: convertToGoogleDevice_def Let_def case_prod_beta)
  then have ids: "map gd_id (map convertToGoogleDevice ?rows) = map device_uuid ?rows"
    by simp
  have members: "mset ?rows = mset (filter (active_owned accountLink) (devices_table db))"
    by simp
  have ordered: "sorted (map provisioned_at ?rows)"
    by (rule sorted_sort_key)
  have insertion: "sorted (map provisioned_at (devices_table db)) \<longrightarrow>
      ?rows = filter (active_owned accountLink) (devices_table db)"
  proof
    assume "sorted (map provisioned_at (devices_table db))"
    then have "sorted (map provisioned_at (filter (active_owned accountLink) (devices_table db)))"
      by (rule sorted_filter)
    then show "?rows = filter (active_owned accountLink) (devices_table db)"
      by (rule sort_key_id_if_sorted)
  qed
  show ?thesis
  proof (intro exI conjI)
    show "fst (handleSync env db req) =
      \<lparr> http_status = 200,
        body = Envelope (requestId req) (SyncPayload a (map convertToGoogleDevice ?rows)) \<rparr>"
      by (rule response)
    show "map gd_id (map convertToGoogleDevice ?rows) = map device_uuid ?rows"
      by (rule ids)
    show "mset ?rows = mset (filter (active_owned accountLink) (devices_table db))"
      by (rule members)
    show "sorted (map provisioned_at ?rows)"
      by (rule ordered)
    show "sorted (map provisioned_at (devices_table db)) \<longrightarrow>
      ?rows = filter (active_owned accountLink) (devices_table db)"
      by (rule insertion)
  qed
qed

theorem sync_lists_active_owned_devices_witness:
  "\<exists>rows.
     fst (handleSync prod_env home_db (request_of ''tok-alice'' ''action.devices.SYNC'' NoPayload)) =
       \<lparr> http_status = 200,
         body = Envelope (Some ''req-1'')
                  (SyncPayload ''agent-alice'' (map convertToGoogleDevice rows)) \<rparr>
     \<and> rows = [lamp, ceiling_fan]"
proof -
  have query_ok: "failing home_db (FindAllForSync (user_id alice_link)) = None"
    and update_ok: "failing home_db (UpdateLastSync ''agent-alice'') = None"
    by (simp_all add: home_db_def)
  have table: "sorted (map provisioned_at (devices_table home_db))"
    by (simp add: home_db_def old_plug_def lamp_def sensor_def ceiling_fan_def)
  have rows: "filter (active_owned alice_link) (devices_table home_db) = [lamp, ceiling_fan]"
    by (simp add: home_db_def active_owned_def old_plug_def lamp_def sensor_def ceiling_fan_def
        alice_link_def)
  have rid: "requestId (request_of ''tok-alice'' ''action.devices.SYNC'' NoPayload) = Some ''req-1''"
    by (simp add: request_of_def)
  from sync_lists_active_owned_devices [OF alice_authenticated alice_linked query_ok update_ok,
      of "''action.devices.SYNC''" NoPayload]
  obtain rs where r:
    "fst (handleSync prod_env home_db (request_of ''tok-alice'' ''action.devices.SYNC'' NoPayload)) =
       \<lparr> http_status = 200,
         body = Envelope (requestId (request_of ''tok-alice'' ''action.devices.SYNC'' NoPayload))
                  (SyncPayload ''agent-alice'' (map convertToGoogleDevice rs)) \<rparr>
     \<and> map gd_id (map convertToGoogleDevice rs) = map device_uuid rs
     \<and> mset rs = mset (filter (active_owned alice_link) (devices_table home_db))
     \<and> sorted (map provisioned_at rs)
     \<and> (sorted (map provisioned_at (devices_table home_db)) \<longrightarrow>
          rs = filter (active_owned alice_link) (devices_table home_db))"
    by (rule exE)
  from r have response:
    "fst (handleSync prod_env home_db (request_of ''tok-alice'' ''action.devices.SYNC'' NoPayload)) =
       \<lparr> http_status = 200,
         body = Envelope (requestId (request_of ''tok-alice'' ''action.devices.SYNC'' NoPayload))
                  (SyncPayload ''agent-alice'' (map convertToGoogleDevice rs)) \<rparr>"
    by (elim conjE)
  from r have "sorted (map provisioned_at (devices_table home_db)) \<longrightarrow>
          rs = filter (active_owned alice_link) (devices_table home_db)"
    by (elim conjE)
  from this table have "rs = filter (active_owned alice_link) (devices_table home_db)"
    by (rule mp)
  with rows have "rs = [lamp, ceiling_fan]" by simp
  with response rid show ?thesis by simp
qed

section \<open>Properties of the envelope boundary\<close>

lemma ghost_authenticated:
  "extractAgentUserId prod_env (request_of ''tok-ghost'' i p) = Some ''agent-ghost''"
  by (simp add: extractAgentUserId_def request_of_def prod_env_def)

lemma ghost_not_linked:
  "findByAgentUserId home_db ''agent-ghost'' = Inr None"
  by (simp add: findByAgentUserId_def run_stmt_def home_db_def alice_link_def)

lemma handleSync_raised:
  assumes "extractAgentUserId env req = Some a"
    and "findByAgentUserId db a = Inl e \<or>
         (\<exists>l. findByAgentUserId db a = Inr (Some l) \<and>
            (findAllForSync db (user_id l) = Inl e \<or>
             (\<exists>rows. findAllForSync db (user_id l) = Inr rows) \<and>
               updateLastSync db (date_now env) a = Inl e))"
  shows "handleSync env db req = (hard_error req e, db)"
  using assms by (auto simp add: handleSync_def try_catch_def)

lemma handleQuery_raised:
  assumes "extractAgentUserId env req = Some a"
    and "findByAgentUserId db a = Inl e"
  shows "handleQuery env tb db s req = (hard_error req e, s)"
  using assms by (simp add: handleQuery_def try_catch_def)

lemma handleExecute_raised:
  assumes "extractAgentUserId env req = Some a"
    and "findByAgentUserId db a = Inl e"
  shows "handleExecute env tb db s req = (hard_error req e, s)"
  using assms by (simp add: handleExecute_def try_catch_def)

lemma handleQuery_bad_payload:
  assumes "extractAgentUserId env req = Some a"
    and "findByAgentUserId db a = Inr (Some l)"
    and "inputs req = Some (i # others)"
    and "\<forall>ids. payload i \<noteq> DevicesPayload ids"
  shows "\<exists>e. handleQuery env tb db s req = (hard_error req e, s)"
  using assms by (cases "payload i") (auto simp add: handleQuery_def try_catch_def)

lemma handleExecute_bad_payload:
  assumes "extractAgentUserId env req = Some a"
    and "findByAgentUserId db a = Inr (Some l)"
    and "inputs req = Some (i # others)"
    and "\<forall>cs. payload i \<noteq> CommandsPayload cs"
  shows "\<exists>e. handleExecute env tb db s req = (hard_error req e, s)"
  using assms by (cases "payload i") (auto simp add: handleExecute_def try_catch_def)

lemma handleDisconnect_raised:
  assumes "extractAgentUserId env req = Some a"
    and "disconnect db a = Inl e"
  shows "handleDisconnect env db req = (empty_success req, db)"
  using assms by (simp add: handleDisconnect_def try_catch_def)

lemma fulfillment_dispatch:
  assumes "requestId req = Some rid" "rid \<noteq> []" "inputs req = Some (i # others)"
  shows "fulfillment env tb (db, s) req =
     (if intent i = ''action.devices.SYNC'' then
        (fst (handleSync env db req), snd (handleSync env db req), s)
      else if intent i = ''action.devices.QUERY'' then
        (fst (handleQuery env tb db s req), db, snd (handleQuery env tb db s req))
      else if intent i = ''action.devices.EXECUTE'' then
        (fst (handleExecute env tb db s req), db, snd (handleExecute env tb db s req))
      else if intent i = ''action.devices.DISCONNECT'' then
        (fst (handleDisconnect env db req), snd (handleDisconnect env db req), s)
      else (\<lparr> http_status = 400,
              body = Envelope (requestId req) (ErrorPayload ''notSupported'' None) \<rparr>, db, s))"
  using assms by (simp add: fulfillment_def try_catch_def case_prod_beta)

lemma handleSync_shape:
  "fst (handleSync env db req) = auth_failure req \<or>
   (\<exists>e. fst (handleSync env db req) = hard_error req e) \<or>
   (\<exists>a ds. fst (handleSync env db req) =
      \<lparr> http_status = 200, body = Envelope (requestId req) (SyncPayload a ds) \<rparr>)"
  by (auto simp add: handleSync_def try_catch_def split: option.splits sum.splits)

lemma handleQuery_shape:
  "fst (handleQuery env tb db s req) = auth_failure req \<or>
   (\<exists>e. fst (handleQuery env tb db s req) = hard_error req e) \<or>
   (\<exists>states. fst (handleQuery env tb db s req) =
      \<lparr> http_status = 200, body = Envelope (requestId req) (QueryPayload states) \<rparr>)"
  by (auto simp add: handleQuery_def try_catch_def
      split: option.splits sum.splits list.splits intent_payload.splits prod.splits)

lemma handleExecute_shape:
  "fst (handleExecute env tb db s req) = auth_failure req \<or>
   (\<exists>e. fst (handleExecute env tb db s req) = hard_error req e) \<or>
   (\<exists>rs. fst (handleExecute env tb db s req) =
      \<lparr> http_status = 200, body = Envelope (requestId req) (ExecutePayload rs) \<rparr>)"
  by (auto simp add: handleExecute_def try_catch_def
      split: option.splits sum.splits list.splits intent_payload.splits prod.splits)

lemma handleDisconnect_shape:
  "fst (handleDisconnect env db req) = empty_success req"
  by (simp add: handleDisconnect_def try_catch_def split: option.splits sum.splits)

text \<open>Every response with status 500 is the \<open>hardError\<close> envelope of a caught exception.\<close>

lemma fulfillment_status_500:
  assumes "http_status (fst (fulfillment env tb (db, s) req)) = 500"
  shows "\<exists>e. fst (fulfillment env tb (db, s) req) = hard_error req e"
proof (cases "inputs req")
  case None
  with assms show ?thesis by (simp add: fulfillment_def try_catch_def)
next
  case (Some ins)
  show ?thesis
  proof (cases "requestId req = None \<or> requestId req = Some []")
    case True
    with Some assms show ?thesis by (auto simp add: fulfillment_def try_catch_def)
  next
    case False
    then obtain rid where rid: "requestId req = Some rid" "rid \<noteq> []" by auto
    show ?thesis
    proof (cases ins)
      case Nil
      with Some rid show ?thesis by (auto simp add: fulfillment_def try_catch_def)
    next
      case (Cons i others)
      with Some have ins: "inputs req = Some (i # others)" by simp
      note d = fulfillment_dispatch [OF rid ins, of env tb db s]
      from assms handleSync_shape [of env db req] handleQuery_shape [of env tb db s req]
        handleExecute_shape [of env tb db s req] handleDisconnect_shape [of env db req]
      show ?thesis
        unfolding d
        by (auto simp add: auth_failure_def empty_success_def split: if_splits)
    qed
  qed
qed

text \<open>
  Claim C8, as stated, fails. With the registry's update raising, a DISCONNECT request
  is answered by the \<open>catch\<close> of \<open>handleDisconnect\<close> with the success-shaped empty
  payload, not with \<open>hardError\<close>; and in a production process a SYNC request whose
  registry query raises is answered with the raised error's own message as debug
  string: the handlers never read \<open>NODE_ENV\<close>.
\<close>

theorem fulfillment_exception_counterexample:
  "disconnect locked_db ''agent-alice'' = Inl ''database is locked'' \<and>
   fst (fulfillment prod_env online_tb (locked_db, 0)
          (request_of ''tok-alice'' ''action.devices.DISCONNECT'' NoPayload)) =
     \<lparr> http_status = 200, body = Envelope (Some ''req-1'') EmptyPayload \<rparr> \<and>
   NODE_ENV prod_env = Some ''production'' \<and>
   findAllForSync locked_db (user_id alice_link) = Inl ''database is locked'' \<and>
   fst (fulfillment prod_env online_tb (locked_db, 0)
          (request_of ''tok-alice'' ''action.devices.SYNC'' NoPayload)) =
     \<lparr> http_status = 500,
       body = Envelope (Some ''req-1'') (ErrorPayload ''hardError'' (Some ''database is locked'')) \<rparr>"
proof -
  have linked: "findByAgentUserId locked_db ''agent-alice'' = Inr (Some alice_link)"
    by (simp add: findByAgentUserId_def run_stmt_def locked_db_def home_db_def alice_link_def)
  have d: "disconnect locked_db ''agent-alice'' = Inl ''database is locked''"
    by (simp add: disconnect_def run_stmt_def locked_db_def)
  have q: "findAllForSync locked_db (user_id alice_link) = Inl ''database is locked''"
    by (simp add: findAllForSync_def run_stmt_def locked_db_def)
  have envl: "requestId (request_of ''tok-alice'' n NoPayload) = Some ''req-1''"
    "''req-1'' \<noteq> []"
    "inputs (request_of ''tok-alice'' n NoPayload) = Some (\<lparr> intent = n, payload = NoPayload \<rparr> # [])"
    for n
    by (simp_all add: request_of_def)
  have r1: "fst (fulfillment prod_env online_tb (locked_db, 0)
          (request_of ''tok-alice'' ''action.devices.DISCONNECT'' NoPayload)) =
     \<lparr> http_status = 200, body = Envelope (Some ''req-1'') EmptyPayload \<rparr>"
    by (simp add: fulfillment_dispatch [OF envl]
        handleDisconnect_raised [OF alice_authenticated d] empty_success_def envl(1))
  have r2: "fst (fulfillment prod_env online_tb (locked_db, 0)
          (request_of ''tok-alice'' ''action.devices.SYNC'' NoPayload)) =
     \<lparr> http_status = 500,
       body = Envelope (Some ''req-1'') (ErrorPayload ''hardError'' (Some ''database is locked'')) \<rparr>"
    using linked q
    by (simp add: fulfillment_dispatch [OF envl]
        handleSync_raised [OF alice_authenticated] hard_error_def envl(1))
  have p: "NODE_ENV prod_env = Some ''production''"
    by (simp add: prod_env_def)
  from d r1 p q r2 show ?thesis by (intro conjI)
qed

text \<open>
  Claim C8, amended. For a fulfillment envelope with a request id and an \<open>inputs\<close>
  array, an exception raised while dispatching (an empty \<open>inputs\<close> array), by the
  link lookup of SYNC, QUERY or EXECUTE, by the device query or the last-sync update of
  SYNC, or by reading a payload that is missing or of the wrong kind in QUERY or
  EXECUTE, is caught and converted into a response with status 500, the request's id
  and error code \<open>hardError\<close>, the registry and gateway states unchanged; an
  exception raised by the update of DISCONNECT is caught and converted into the
  success-shaped empty response. Every response with status 500 is such a
  \<open>hardError\<close> envelope.
\<close>

theorem fulfillment_converts_exceptions:
  assumes envelope: "requestId req = Some rid" "rid \<noteq> []"
  shows "(inputs req = Some [] \<longrightarrow>
            (\<exists>e. fulfillment env tb (db, s) req = (hard_error req e, db, s)))
       \<and> (inputs req = Some (i # others) \<and> intent i \<in> guarded_intents \<and>
          extractAgentUserId env req = Some a \<and> findByAgentUserId db a = Inl e \<longrightarrow>
            fulfillment env tb (db, s) req = (hard_error req e, db, s))
       \<and> (inputs req = Some (i # others) \<and> intent i = ''action.devices.SYNC'' \<and>
          extractAgentUserId env req = Some a \<and> findByAgentUserId db a = Inr (Some l) \<and>
          (findAllForSync db (user_id l) = Inl e \<or>
           (\<exists>rows. findAllForSync db (user_id l) = Inr rows) \<and>
             updateLastSync db (date_now env) a = Inl e) \<longrightarrow>
            fulfillment env tb (db, s) req = (hard_error req e, db, s))
       \<and> (inputs req = Some (i # others) \<and> extractAgentUserId env req = Some a \<and>
          findByAgentUserId db a = Inr (Some l) \<and>
          (intent i = ''action.devices.QUERY'' \<and> (\<forall>ids. payload i \<noteq> DevicesPayload ids) \<or>
           intent i = ''action.devices.EXECUTE'' \<and> (\<forall>cs. payload i \<noteq> CommandsPayload cs)) \<longrightarrow>
            (\<exists>e. fulfillment env tb (db, s) req = (hard_error req e, db, s)))
       \<and> (inputs req = Some (i # others) \<and> intent i = ''action.devices.DISCONNECT'' \<and>
          extractAgentUserId env req = Some a \<and> disconnect db a = Inl e \<longrightarrow>
            fulfillment env tb (db, s) req = (empty_success req, db, s))
       \<and> http_status (hard_error req e) = 500
       \<and> (\<exists>debug. body (hard_error req e) = Envelope (Some rid) (ErrorPayload ''hardError'' debug))
       \<and> (http_status (fst (fulfillment env tb (db, s) req)) = 500 \<longrightarrow>
            (\<exists>raised. fst (fulfillment env tb (db, s) req) = hard_error req raised))"
proof (intro conjI impI)
  assume "inputs req = Some []"
  with envelope show "\<exists>e. fulfillment env tb (db, s) req = (hard_error req e, db, s)"
    by (auto simp add: fulfillment_def try_catch_def)
next
  assume h: "inputs req = Some (i # others) \<and> intent i \<in> guarded_intents \<and>
          extractAgentUserId env req = Some a \<and> findByAgentUserId db a = Inl e"
  then have i: "inputs req = Some (i # others)" and a: "extractAgentUserId env req = Some a"
    and e: "findByAgentUserId db a = Inl e" and g: "intent i \<in> guarded_intents"
    by simp_all
  have e': "findByAgentUserId db a = Inl e \<or>
         (\<exists>l. findByAgentUserId db a = Inr (Some l) \<and>
            (findAllForSync db (user_id l) = Inl e \<or>
             (\<exists>rows. findAllForSync db (user_id l) = Inr rows) \<and>
               updateLastSync db (date_now env) a = Inl e))"
    using e by (rule disjI1)
  from g show "fulfillment env tb (db, s) req = (hard_error req e, db, s)"
    by (auto simp add: guarded_intents_def fulfillment_dispatch [OF envelope i]
        handleSync_raised [OF a e'] handleQuery_raised [OF a e] handleExecute_raised [OF a e])
next
  assume h: "inputs req = Some (i # others) \<and> intent i = ''action.devices.SYNC'' \<and>
          extractAgentUserId env req = Some a \<and> findByAgentUserId db a = Inr (Some l) \<and>
          (findAllForSync db (user_id l) = Inl e \<or>
           (\<exists>rows. findAllForSync db (user_id l) = Inr rows) \<and>
             updateLastSync db (date_now env) a = Inl e)"
  then have i: "inputs req = Some (i # others)" and a: "extractAgentUserId env req = Some a"
    and n: "intent i = ''action.devices.SYNC''"
    by simp_all
  from h have e': "findByAgentUserId db a = Inl e \<or>
         (\<exists>l. findByAgentUserId db a = Inr (Some l) \<and>
            (findAllForSync db (user_id l) = Inl e \<or>
             (\<exists>rows. findAllForSync db (user_id l) = Inr rows) \<and>
               updateLastSync db (date_now env) a = Inl e))"
    by blast
  show "fulfillment env tb (db, s) req = (hard_error req e, db, s)"
    by (simp add: fulfillment_dispatch [OF envelope i] n handleSync_raised [OF a e'])
next
  assume h: "inputs req = Some (i # others) \<and> extractAgentUserId env req = Some a \<and>
          findByAgentUserId db a = Inr (Some l) \<and>
          (intent i = ''action.devices.QUERY'' \<and> (\<forall>ids. payload i \<noteq> DevicesPayload ids) \<or>
           intent i = ''action.devices.EXECUTE'' \<and> (\<forall>cs. payload i \<noteq> CommandsPayload cs))"
  then have i: "inputs req = Some (i # others)" and a: "extractAgentUserId env req = Some a"
    and l: "findByAgentUserId db a = Inr (Some l)"
    by simp_all
  from h consider
      (query) "intent i = ''action.devices.QUERY''" "\<forall>ids. payload i \<noteq> DevicesPayload ids"
    | (execute) "intent i = ''action.devices.EXECUTE''" "\<forall>cs. payload i \<noteq> CommandsPayload cs"
    by blast
  then show "\<exists>e. fulfillment env tb (db, s) req = (hard_error req e, db, s)"
  proof cases
    case query
    from handleQuery_bad_payload [OF a l i query(2), of tb s]
    obtain e' where "handleQuery env tb db s req = (hard_error req e', s)" by (rule exE)
    with query(1) show ?thesis
      by (auto simp add: fulfillment_dispatch [OF envelope i])
  next
    case execute
    from handleExecute_bad_payload [OF a l i execute(2), of tb s]
    obtain e' where "handleExecute env tb db s req = (hard_error req e', s)" by (rule exE)
    with execute(1) show ?thesis
      by (auto simp add: fulfillment_dispatch [OF envelope i])
  qed
next
  assume h: "inputs req = Some (i # others) \<and> intent i = ''action.devices.DISCONNECT'' \<and>
          extractAgentUserId env req = Some a \<and> disconnect db a = Inl e"
  then have i: "inputs req = Some (i # others)" and a: "extractAgentUserId env req = Some a"
    and n: "intent i = ''action.devices.DISCONNECT''" and d: "disconnect db a = Inl e"
    by simp_all
  show "fulfillment env tb (db, s) req = (empty_success req, db, s)"
    by (simp add: fulfillment_dispatch [OF envelope i] n handleDisconnect_raised [OF a d])
next
  show "http_status (hard_error req e) = 500"
    by (simp add: hard_error_def)
next
  show "\<exists>debug. body (hard_error req e) = Envelope (Some rid) (ErrorPayload ''hardError'' debug)"
    by (simp add: hard_error_def envelope)
next
  assume "http_status (fst (fulfillment env tb (db, s) req)) = 500"
  then show "\<exists>raised. fst (fulfillment env tb (db, s) req) = hard_error req raised"
    by (rule fulfillment_status_500)
qed


theorem fulfillment_converts_exceptions_witness:
  "fulfillment prod_env online_tb (locked_db, 0)
     (request_of ''tok-alice'' ''action.devices.SYNC'' NoPayload) =
   (hard_error (request_of ''tok-alice'' ''action.devices.SYNC'' NoPayload) ''database is locked'',
    locked_db, 0)
   \<and> http_status (hard_error (request_of ''tok-alice'' ''action.devices.SYNC'' NoPayload)
        ''database is locked'') = 500"
proof -
  let ?req = "request_of ''tok-alice'' ''action.devices.SYNC'' NoPayload"
  let ?i = "\<lparr> intent = ''action.devices.SYNC'', payload = NoPayload \<rparr>"
  have rid: "requestId ?req = Some ''req-1''" and nonempty: "''req-1'' \<noteq> []"
    by (simp_all add: request_of_def)
  have linked: "findByAgentUserId locked_db ''agent-alice'' = Inr (Some alice_link)"
    by (simp add: findByAgentUserId_def run_stmt_def locked_db_def home_db_def alice_link_def)
  have q: "findAllForSync locked_db (user_id alice_link) = Inl ''database is locked''"
    by (simp add: findAllForSync_def run_stmt_def locked_db_def)
  have hyp: "inputs ?req = Some (?i # []) \<and> intent ?i = ''action.devices.SYNC'' \<and>
          extractAgentUserId prod_env ?req = Some ''agent-alice'' \<and>
          findByAgentUserId locked_db ''agent-alice'' = Inr (Some alice_link) \<and>
          (findAllForSync locked_db (user_id alice_link) = Inl ''database is locked'' \<or>
           (\<exists>rows. findAllForSync locked_db (user_id alice_link) = Inr rows) \<and>
             updateLastSync locked_db (date_now prod_env) ''agent-alice'' = Inl ''database is locked'')"
    using linked q alice_authenticated [of "''action.devices.SYNC''" NoPayload]
    by (simp add: request_of_def)
  note t = fulfillment_converts_exceptions [OF rid nonempty,
      where i = ?i and others = "[]" and env = prod_env and a = "''agent-alice''"
        and db = locked_db and e = "''database is locked''" and l = alice_link
        and tb = online_tb and s = 0]
  from t [THEN conjunct2, THEN conjunct2, THEN conjunct1] hyp
  have a: "fulfillment prod_env online_tb (locked_db, 0) ?req =
      (hard_error ?req ''database is locked'', locked_db, 0)"
    by (rule mp)
  from t have b: "http_status (hard_error ?req ''database is locked'') = 500"
    by (elim conjE)
  from a b show ?thesis by (intro conjI)
qed

subsection \<open>Identity\<close>

lemma handler_not_linked:
  assumes "extractAgentUserId env req = Some a" and "findByAgentUserId db a = Inr None"
  shows "fst (handleSync env db req) = auth_failure req"
    and "fst (handleQuery env tb db s req) = auth_failure req"
    and "fst (handleExecute env tb db s req) = auth_failure req"
  using assms
  by (simp_all add: handleSync_def handleQuery_def handleExecute_def try_catch_def)

lemma handleSync_linked:
  assumes "extractAgentUserId env req = Some a" and "findByAgentUserId db a = Inr (Some l)"
  shows "http_status (fst (handleSync env db req)) \<noteq> 401"
  using assms
  by (simp add: handleSync_def try_catch_def hard_error_def split: sum.splits)

lemma handleQuery_linked:
  assumes "extractAgentUserId env req = Some a" and "findByAgentUserId db a = Inr (Some l)"
  shows "http_status (fst (handleQuery env tb db s req)) \<noteq> 401"
  using assms
  by (simp add: handleQuery_def try_catch_def hard_error_def
      split: option.splits list.splits intent_payload.splits prod.splits)

lemma handleExecute_linked:
  assumes "extractAgentUserId env req = Some a" and "findByAgentUserId db a = Inr (Some l)"
  shows "http_status (fst (handleExecute env tb db s req)) \<noteq> 401"
  using assms
  by (simp add: handleExecute_def try_catch_def hard_error_def
      split: option.splits list.splits intent_payload.splits prod.splits)

lemma extractAgentUserId_decoded:
  assumes "authorization req = Some (''Bearer '' @ token)"
    and "jwt_decode env token = Inr (Some \<lparr> agentUserId = Some a, exp = expiry \<rparr>)"
    and "a \<noteq> []"
  shows "extractAgentUserId env req = Some a"
  using assms by (simp add: extractAgentUserId_def)

text \<open>
  Claim C10, as stated for every request, fails on DISCONNECT: a request whose token
  decodes to a subject without any account link is accepted and answered with the
  success-shaped response.
\<close>

theorem identity_check_counterexample:
  "extractAgentUserId prod_env (request_of ''tok-ghost'' ''action.devices.DISCONNECT'' NoPayload) =
     Some ''agent-ghost'' \<and>
   findByAgentUserId home_db ''agent-ghost'' = Inr None \<and>
   fst (fulfillment prod_env online_tb (home_db, 0)
          (request_of ''tok-ghost'' ''action.devices.DISCONNECT'' NoPayload)) =
     \<lparr> http_status = 200, body = Envelope (Some ''req-1'') EmptyPayload \<rparr>"
proof -
  have envl: "requestId (request_of ''tok-ghost'' n NoPayload) = Some ''req-1''"
    "''req-1'' \<noteq> []"
    "inputs (request_of ''tok-ghost'' n NoPayload) = Some (\<lparr> intent = n, payload = NoPayload \<rparr> # [])"
    for n
    by (simp_all add: request_of_def)
  have "fst (handleDisconnect prod_env home_db
          (request_of ''tok-ghost'' ''action.devices.DISCONNECT'' NoPayload)) =
     \<lparr> http_status = 200, body = Envelope (Some ''req-1'') EmptyPayload \<rparr>"
    by (simp add: handleDisconnect_def try_catch_def ghost_authenticated empty_success_def envl(1)
        split: sum.splits)
  then have "fst (fulfillment prod_env online_tb (home_db, 0)
          (request_of ''tok-ghost'' ''action.devices.DISCONNECT'' NoPayload)) =
     \<lparr> http_status = 200, body = Envelope (Some ''req-1'') EmptyPayload \<rparr>"
    by (simp add: fulfillment_dispatch [OF envl])
  with ghost_authenticated [of "''action.devices.DISCONNECT''" NoPayload] ghost_not_linked
  show ?thesis by (intro conjI)
qed

text \<open>
  Claim C10, amended. The caller's identity is what \<open>jwt.decode\<close> returns: for a
  header \<open>Bearer token\<close> whose token decodes to a payload with a non-empty
  \<open>agentUserId\<close>, whatever its expiry \<open>exp\<close> (no key, signature or clock is
  consulted), \<open>extractAgentUserId\<close> returns that subject. A SYNC, QUERY or EXECUTE
  request is then answered with \<open>authFailure\<close> exactly when the link table has no
  active link for the subject; a DISCONNECT request is answered with the success-shaped
  response whether or not a link exists.
\<close>

theorem identity_from_decoded_token:
  assumes header: "authorization req = Some (''Bearer '' @ token)"
    and decoded: "jwt_decode env token = Inr (Some \<lparr> agentUserId = Some a, exp = expiry \<rparr>)"
    and nonempty: "a \<noteq> []"
    and envelope: "requestId req = Some rid" "rid \<noteq> []" "inputs req = Some (i # others)"
    and lookup_ok: "failing db (FindByAgentUserId a) = None"
  shows "extractAgentUserId env req = Some a
       \<and> (intent i \<in> guarded_intents \<longrightarrow>
            (fst (fulfillment env tb (db, s) req) = auth_failure req) =
            (\<not> (\<exists>l \<in> set (links_table db). google_agent_user_id l = a \<and> link_is_active l = 1)))
       \<and> (intent i = ''action.devices.DISCONNECT'' \<longrightarrow>
            fst (fulfillment env tb (db, s) req) = empty_success req)"
proof (intro conjI impI)
  show subject: "extractAgentUserId env req = Some a"
    by (rule extractAgentUserId_decoded [OF header decoded nonempty])
  {
    assume guarded: "intent i \<in> guarded_intents"
    let ?found = "find (\<lambda>l. google_agent_user_id l = a \<and> link_is_active l = 1) (links_table db)"
    have lookup: "findByAgentUserId db a = Inr ?found"
      using lookup_ok by (simp add: findByAgentUserId_def run_stmt_def)
    have status: "http_status (auth_failure req) = 401"
      by (simp add: auth_failure_def)
    show "(fst (fulfillment env tb (db, s) req) = auth_failure req) =
          (\<not> (\<exists>l \<in> set (links_table db). google_agent_user_id l = a \<and> link_is_active l = 1))"
    proof (cases ?found)
      case None
      with lookup have none: "findByAgentUserId db a = Inr None" by simp
      from None have "\<not> (\<exists>l \<in> set (links_table db). google_agent_user_id l = a \<and> link_is_active l = 1)"
        by (simp add: find_None_iff)
      moreover from guarded have "fst (fulfillment env tb (db, s) req) = auth_failure req"
        by (auto simp add: guarded_intents_def fulfillment_dispatch [OF envelope]
            handler_not_linked [OF subject none])
      ultimately show ?thesis by simp
    next
      case (Some l)
      with lookup have some: "findByAgentUserId db a = Inr (Some l)" by simp
      from Some have "\<exists>l \<in> set (links_table db). google_agent_user_id l = a \<and> link_is_active l = 1"
        by (auto simp add: find_Some_iff)
      moreover from guarded have "http_status (fst (fulfillment env tb (db, s) req)) \<noteq> 401"
        by (auto simp add: guarded_intents_def fulfillment_dispatch [OF envelope]
            handleSync_linked [OF subject some] handleQuery_linked [OF subject some]
            handleExecute_linked [OF subject some])
      with status have "fst (fulfillment env tb (db, s) req) \<noteq> auth_failure req"
        by auto
      ultimately show ?thesis by simp
    qed
  }
  {
    assume "intent i = ''action.devices.DISCONNECT''"
    then show "fst (fulfillment env tb (db, s) req) = empty_success req"
      by (simp add: fulfillment_dispatch [OF envelope] handleDisconnect_def try_catch_def
          split: option.splits sum.splits)
  }
qed

theorem identity_from_decoded_token_witness:
  "extractAgentUserId prod_env (request_of ''tok-alice'' ''action.devices.SYNC'' NoPayload) =
     Some ''agent-alice''
   \<and> fst (fulfillment prod_env online_tb (home_db, 0)
            (request_of ''tok-ghost'' ''action.devices.SYNC'' NoPayload)) =
       auth_failure (request_of ''tok-ghost'' ''action.devices.SYNC'' NoPayload)"
proof -
  let ?i = "\<lparr> intent = ''action.devices.SYNC'', payload = NoPayload \<rparr>"
  have header: "authorization (request_of token ''action.devices.SYNC'' NoPayload) =
      Some (''Bearer '' @ token)"
    and rid: "requestId (request_of token ''action.devices.SYNC'' NoPayload) = Some ''req-1''"
    and ins: "inputs (request_of token ''action.devices.SYNC'' NoPayload) = Some (?i # [])"
    for token
    by (simp_all add: request_of_def)
  have nonempty: "''req-1'' \<noteq> []" "''agent-alice'' \<noteq> []" "''agent-ghost'' \<noteq> []"
    by simp_all
  have expired: "jwt_decode prod_env ''tok-alice'' =
      Inr (Some \<lparr> agentUserId = Some ''agent-alice'', exp = Some 0 \<rparr>)"
    and ghost: "jwt_decode prod_env ''tok-ghost'' =
      Inr (Some \<lparr> agentUserId = Some ''agent-ghost'', exp = None \<rparr>)"
    by (simp_all add: prod_env_def)
  have lookup_ok: "failing home_db (FindByAgentUserId a) = None" for a
    by (simp add: home_db_def)
  have guarded: "intent ?i \<in> guarded_intents"
    by (simp add: guarded_intents_def)
  have no_link: "\<not> (\<exists>l \<in> set (links_table home_db).
      google_agent_user_id l = ''agent-ghost'' \<and> link_is_active l = 1)"
    by (simp add: home_db_def alice_link_def)
  from identity_from_decoded_token [OF header expired nonempty(2) rid nonempty(1) ins lookup_ok]
  have a: "extractAgentUserId prod_env (request_of ''tok-alice'' ''action.devices.SYNC'' NoPayload) =
     Some ''agent-alice''"
    by (rule conjunct1)
  note t = identity_from_decoded_token [OF header ghost nonempty(3) rid nonempty(1) ins lookup_ok,
      where tb = online_tb and s = 0]
  from t [THEN conjunct2, THEN conjunct1] guarded
  have "(fst (fulfillment prod_env online_tb (home_db, 0)
            (request_of ''tok-ghost'' ''action.devices.SYNC'' NoPayload)) =
       auth_failure (request_of ''tok-ghost'' ''action.devices.SYNC'' NoPayload)) =
      (\<not> (\<exists>l \<in> set (links_table home_db).
          google_agent_user_id l = ''agent-ghost'' \<and> link_is_active l = 1))"
    by (rule mp)
  from this no_link have b: "fst (fulfillment prod_env online_tb (home_db, 0)
            (request_of ''tok-ghost'' ''action.devices.SYNC'' NoPayload)) =
       auth_failure (request_of ''tok-ghost'' ''action.devices.SYNC'' NoPayload)"
    by (rule iffD2)
  from a b show ?thesis by (intro conjI)
qed

end
